theory Spec2Isabelle
  imports Complex_Main "HOL-Library.Char_ord" "HOL-Library.List_Lexorder"
begin

section \<open>Python values\<close>

text \<open>
  The repository is dynamically typed: plan steps, tool results, registry entries and
  cached values are JSON-shaped Python objects. They are embedded as one datatype.
  A dict is an association list with string keys (JSON object); \<open>float\<close> values are
  read as real numbers (no rounding, no NaN, no infinity). Strings are lists of
  characters with code points below 256.
\<close>

datatype py_error = TypeError | ValueError | AttributeError | ZeroDivisionError

datatype pyval =
    PNone
  | PBool bool
  | PInt int
  | PFloat real
  | PStr string
  | PList "pyval list"
  | PDict "(string \<times> pyval) list"

fun truthy :: "pyval \<Rightarrow> bool" where
  "truthy PNone = False"
| "truthy (PBool b) = b"
| "truthy (PInt n) = (n \<noteq> 0)"
| "truthy (PFloat r) = (r \<noteq> 0)"
| "truthy (PStr s) = (s \<noteq> [])"
| "truthy (PList xs) = (xs \<noteq> [])"
| "truthy (PDict kvs) = (kvs \<noteq> [])"

definition py_or :: "pyval \<Rightarrow> pyval \<Rightarrow> pyval" where
  "py_or a b = (if truthy a then a else b)"

definition is_dict :: "pyval \<Rightarrow> bool" where
  "is_dict v = (case v of PDict _ \<Rightarrow> True | _ \<Rightarrow> False)"

definition alist_get :: "(string \<times> pyval) list \<Rightarrow> string \<Rightarrow> pyval" where
  "alist_get kvs k = (case map_of kvs k of None \<Rightarrow> PNone | Some v \<Rightarrow> v)"

definition alist_get_default :: "(string \<times> pyval) list \<Rightarrow> string \<Rightarrow> pyval \<Rightarrow> pyval" where
  "alist_get_default kvs k d = (case map_of kvs k of None \<Rightarrow> d | Some v \<Rightarrow> v)"

text \<open>\<open>x.get(k)\<close> on an arbitrary object: only a dict has the method.\<close>

definition py_get :: "pyval \<Rightarrow> string \<Rightarrow> py_error + pyval" where
  "py_get v k = (case v of PDict kvs \<Rightarrow> Inr (alist_get kvs k) | _ \<Rightarrow> Inl AttributeError)"

text \<open>\<open>d.get(key)\<close> on a dict with an arbitrary key object: lists and dicts are unhashable,
  any other non-string key is simply absent from a JSON object.\<close>

definition dict_get_key :: "(string \<times> pyval) list \<Rightarrow> pyval \<Rightarrow> py_error + pyval" where
  "dict_get_key kvs key =
     (case key of
        PStr k \<Rightarrow> Inr (alist_get kvs k)
      | PList _ \<Rightarrow> Inl TypeError
      | PDict _ \<Rightarrow> Inl TypeError
      | _ \<Rightarrow> Inr PNone)"

text \<open>Numbers: \<open>bool\<close> is a subclass of \<open>int\<close> in Python.\<close>

definition num_of :: "pyval \<Rightarrow> real option" where
  "num_of v =
     (case v of
        PBool b \<Rightarrow> Some (if b then 1 else 0)
      | PInt n \<Rightarrow> Some (of_int n)
      | PFloat r \<Rightarrow> Some r
      | _ \<Rightarrow> None)"

text \<open>\<open>int(x)\<close> on a float truncates towards zero.\<close>

definition trunc :: "real \<Rightarrow> int" where
  "trunc x = (if 0 \<le> x then \<lfloor>x\<rfloor> else \<lceil>x\<rceil>)"

section \<open>tools/eta\_calculator.py\<close>

definition py_sqrt :: "real \<Rightarrow> py_error + real" where
  "py_sqrt x = (if x < 0 then Inl ValueError else Inr (sqrt x))"

definition py_asin :: "real \<Rightarrow> py_error + real" where
  "py_asin x = (if x < - 1 \<or> 1 < x then Inl ValueError else Inr (arcsin x))"

definition radians :: "real \<Rightarrow> real" where
  "radians d = d * pi / 180"

definition py_div :: "real \<Rightarrow> real \<Rightarrow> py_error + real" where
  "py_div a b = (if b = 0 then Inl ZeroDivisionError else Inr (a / b))"

definition haversine_a :: "real \<Rightarrow> real \<Rightarrow> real \<Rightarrow> real \<Rightarrow> real" where
  "haversine_a lat1 lon1 lat2 lon2 =
     (sin (radians (lat2 - lat1) / 2))\<^sup>2
       + cos (radians lat1) * cos (radians lat2) * (sin (radians (lon2 - lon1) / 2))\<^sup>2"

definition haversine_meters :: "pyval \<Rightarrow> pyval \<Rightarrow> pyval \<Rightarrow> pyval \<Rightarrow> py_error + real" where
  "haversine_meters lat1 lon1 lat2 lon2 =
     (case (num_of lat1, num_of lon1, num_of lat2, num_of lon2) of
        (Some a1, Some o1, Some a2, Some o2) \<Rightarrow>
          (case py_sqrt (haversine_a a1 o1 a2 o2) of
             Inl e \<Rightarrow> Inl e
           | Inr r \<Rightarrow>
              (case py_asin r of
                 Inl e \<Rightarrow> Inl e
               | Inr t \<Rightarrow> Inr (2 * 6371000 * t)))
      | _ \<Rightarrow> Inl TypeError)"

definition calculate_eta_body ::
  "pyval \<Rightarrow> pyval \<Rightarrow> pyval \<Rightarrow> pyval \<Rightarrow> pyval \<Rightarrow> pyval \<Rightarrow> py_error + int" where
  "calculate_eta_body lat1 lon1 lat2 lon2 speed_kmph traffic_multiplier =
     (case haversine_meters lat1 lon1 lat2 lon2 of
        Inl e \<Rightarrow> Inl e
      | Inr dist_m \<Rightarrow>
         (case num_of speed_kmph of
            None \<Rightarrow> Inl TypeError
          | Some sp \<Rightarrow>
             (let speed_m_s = max (sp * 1000 / 3600) (1 / 10) in
              case py_div dist_m speed_m_s of
                Inl e \<Rightarrow> Inl e
              | Inr base_seconds \<Rightarrow>
                 (case num_of traffic_multiplier of
                    None \<Rightarrow> Inl TypeError
                  | Some tm \<Rightarrow> Inr (trunc (base_seconds * tm))))))"

definition calculate_eta_seconds ::
  "pyval \<Rightarrow> pyval \<Rightarrow> pyval \<Rightarrow> pyval \<Rightarrow> pyval \<Rightarrow> pyval \<Rightarrow> int" where
  "calculate_eta_seconds lat1 lon1 lat2 lon2 speed_kmph traffic_multiplier =
     (case calculate_eta_body lat1 lon1 lat2 lon2 speed_kmph traffic_multiplier of
        Inl e \<Rightarrow> 9999
      | Inr n \<Rightarrow> n)"

section \<open>Strings and the regular expressions of the engine\<close>

text \<open>
  Character classes as Python's \<open>str\<close> methods and \<open>re\<close> module (Unicode mode) see
  them, on code points below 256.
\<close>

definition code :: "char \<Rightarrow> nat" where
  "code c = of_char c"

definition is_digit :: "char \<Rightarrow> bool" where
  "is_digit c = (48 \<le> code c \<and> code c \<le> 57)"

definition is_ascii_upper :: "char \<Rightarrow> bool" where
  "is_ascii_upper c = (65 \<le> code c \<and> code c \<le> 90)"

definition is_ascii_lower :: "char \<Rightarrow> bool" where
  "is_ascii_lower c = (97 \<le> code c \<and> code c \<le> 122)"

text \<open>\<open>\w\<close>: alphanumeric (\<open>str.isalnum\<close>) or underscore.\<close>

definition is_word_char :: "char \<Rightarrow> bool" where
  "is_word_char c =
     (let n = code c in
      is_digit c \<or> is_ascii_upper c \<or> is_ascii_lower c \<or> n = 95
      \<or> n = 170 \<or> n = 178 \<or> n = 179 \<or> n = 181 \<or> n = 185 \<or> n = 186
      \<or> (188 \<le> n \<and> n \<le> 190) \<or> (192 \<le> n \<and> n \<le> 214)
      \<or> (216 \<le> n \<and> n \<le> 246) \<or> (248 \<le> n \<and> n \<le> 255))"

text \<open>\<open>str.isspace\<close>, the characters \<open>strip()\<close> and \<open>split()\<close> remove.\<close>

definition is_space :: "char \<Rightarrow> bool" where
  "is_space c =
     (let n = code c in
      (9 \<le> n \<and> n \<le> 13) \<or> (28 \<le> n \<and> n \<le> 32) \<or> n = 133 \<or> n = 160)"

definition lower_char :: "char \<Rightarrow> char" where
  "lower_char c =
     (let n = code c in
      if is_ascii_upper c \<or> (192 \<le> n \<and> n \<le> 222 \<and> n \<noteq> 215)
      then char_of (n + 32) else c)"

definition py_lower :: "string \<Rightarrow> string" where
  "py_lower s = map lower_char s"

text \<open>\<open>upper()\<close> is only ever applied to a match of \<open>[Bb]\d+\<close>, \<open>[Rr]\d+\<close> or
  \<open>[Ss]\d+\<close>, which is ASCII.\<close>

definition upper_char :: "char \<Rightarrow> char" where
  "upper_char c = (if is_ascii_lower c then char_of (code c - 32) else c)"

definition py_upper :: "string \<Rightarrow> string" where
  "py_upper s = map upper_char s"

definition py_strip :: "string \<Rightarrow> string" where
  "py_strip s = rev (dropWhile is_space (rev (dropWhile is_space s)))"

text \<open>\<open>s.split()\<close>: the maximal runs of non-space characters.\<close>

function py_split :: "string \<Rightarrow> string list" where
  "py_split s =
     (let t = dropWhile is_space s in
      if t = [] then []
      else takeWhile (\<lambda>c. \<not> is_space c) t # py_split (dropWhile (\<lambda>c. \<not> is_space c) t))"
  by pat_completeness auto
termination
proof (relation "measure length")
  show "wf (measure length)" by simp
next
  fix s t :: string
  assume t: "t = dropWhile is_space s" and ne: "t \<noteq> []"
  have "\<not> is_space (hd t)"
    using t ne hd_dropWhile [of is_space s] by simp
  then have "length (dropWhile (\<lambda>c. \<not> is_space c) t) < length t"
    using ne by (cases t) (auto simp: le_imp_less_Suc length_dropWhile_le)
  also have "length t \<le> length s"
    using t by (simp add: length_dropWhile_le)
  finally show "(dropWhile (\<lambda>c. \<not> is_space c) t, s) \<in> measure length"
    by simp
qed

declare py_split.simps [simp del]

fun join_with :: "string \<Rightarrow> string list \<Rightarrow> string" where
  "join_with sep [] = []"
| "join_with sep [x] = x"
| "join_with sep (x # y # ys) = x @ sep @ join_with sep (y # ys)"

text \<open>\<open>" ".join(s.split())\<close>\<close>

definition collapse_ws :: "string \<Rightarrow> string" where
  "collapse_ws s = join_with '' '' (py_split s)"

fun starts_with :: "string \<Rightarrow> string \<Rightarrow> bool" where
  "starts_with [] s = True"
| "starts_with (k # ks) [] = False"
| "starts_with (k # ks) (c # cs) = (k = c \<and> starts_with ks cs)"

text \<open>\<open>k in s\<close> for strings.\<close>

fun contains :: "string \<Rightarrow> string \<Rightarrow> bool" where
  "contains k [] = (k = [])"
| "contains k (c # cs) = (starts_with k (c # cs) \<or> contains k cs)"

definition any_in :: "string list \<Rightarrow> string \<Rightarrow> bool" where
  "any_in ks q = list_ex (\<lambda>k. contains k q) ks"

text \<open>
  All non-overlapping matches, left to right, of \<open>\b[Xx]\d+\b\<close>, where \<open>X\<close> is the
  upper-case letter \<open>L\<close>. The flag says whether the character before the current
  position is a word character. A match needs a non-word character (or the start) before
  the letter, one or more digits, and a non-word character (or the end) after the
  longest run of digits; a shorter run is followed by a digit, so backtracking cannot
  succeed where the longest run fails.
\<close>

function scan_ids :: "char \<Rightarrow> bool \<Rightarrow> string \<Rightarrow> string list" where
  "scan_ids L pw [] = []"
| "scan_ids L pw (c # cs) =
     (let ds = takeWhile is_digit cs; rest = dropWhile is_digit cs in
      if \<not> pw \<and> (c = L \<or> c = lower_char L) \<and> ds \<noteq> []
         \<and> (rest = [] \<or> \<not> is_word_char (hd rest))
      then (c # ds) # scan_ids L True rest
      else scan_ids L (is_word_char c) cs)"
  by pat_completeness auto
termination
  by (relation "measure (\<lambda>(L, pw, s). length s)")
     (auto simp: le_imp_less_Suc length_dropWhile_le)

definition finditer_ids :: "char \<Rightarrow> string \<Rightarrow> string list" where
  "finditer_ids L s = scan_ids L False s"

text \<open>\<open>re.search\<close>: the first match, if any.\<close>

definition search_id :: "char \<Rightarrow> string \<Rightarrow> string option" where
  "search_id L s = (case finditer_ids L s of [] \<Rightarrow> None | m # _ \<Rightarrow> Some m)"

text \<open>
  \<open>re.findall(r"[-+]?\d*\.\d+|\d+", d)\<close>. At a position the first alternative is
  tried first: optional sign, the longest run of digits, a dot, one or more digits.
  The second is a run of one or more digits.
\<close>

definition match_decimal :: "string \<Rightarrow> (string \<times> string) option" where
  "match_decimal s =
     (let sg = (case s of c # _ \<Rightarrow> if c = CHR ''-'' \<or> c = CHR ''+'' then [c] else [] | [] \<Rightarrow> []);
          s1 = drop (length sg) s;
          ds = takeWhile is_digit s1;
          s2 = dropWhile is_digit s1
      in case s2 of
           c # s3 \<Rightarrow>
             (if c = CHR ''.'' \<and> takeWhile is_digit s3 \<noteq> []
              then Some (sg @ ds @ [c] @ takeWhile is_digit s3, dropWhile is_digit s3)
              else None)
         | [] \<Rightarrow> None)"

definition match_digits :: "string \<Rightarrow> (string \<times> string) option" where
  "match_digits s =
     (if takeWhile is_digit s = [] then None
      else Some (takeWhile is_digit s, dropWhile is_digit s))"

definition match_number :: "string \<Rightarrow> (string \<times> string) option" where
  "match_number s = (case match_decimal s of Some r \<Rightarrow> Some r | None \<Rightarrow> match_digits s)"

lemma match_decimal_shorter:
  "match_decimal s = Some (m, rest) \<Longrightarrow> length rest < length s"
proof -
  assume a: "match_decimal s = Some (m, rest)"
  define sg where "sg = (case s of c # _ \<Rightarrow> if c = CHR ''-'' \<or> c = CHR ''+'' then [c] else [] | [] \<Rightarrow> [])"
  define s1 where "s1 = drop (length sg) s"
  from a obtain c s3 where s2: "dropWhile is_digit s1 = c # s3" and r: "rest = dropWhile is_digit s3"
    unfolding match_decimal_def sg_def [symmetric] Let_def s1_def [symmetric]
    by (auto split: list.splits if_splits)
  have "length rest \<le> length s3" using r by (simp add: length_dropWhile_le)
  also have "length s3 < length (dropWhile is_digit s1)" using s2 by simp
  also have "\<dots> \<le> length s1" by (simp add: length_dropWhile_le)
  also have "\<dots> \<le> length s" by (simp add: s1_def)
  finally show ?thesis .
qed

lemma match_digits_shorter:
  "match_digits s = Some (m, rest) \<Longrightarrow> length rest < length s"
proof -
  assume a: "match_digits s = Some (m, rest)"
  then have ne: "takeWhile is_digit s \<noteq> []" and r: "rest = dropWhile is_digit s"
    by (auto simp: match_digits_def split: if_splits)
  from ne obtain c cs where s: "s = c # cs" and d: "is_digit c"
    by (cases s) (auto split: if_splits)
  show ?thesis using r s d by (simp add: le_imp_less_Suc length_dropWhile_le)
qed

lemma match_number_shorter:
  "match_number s = Some (m, rest) \<Longrightarrow> length rest < length s"
  by (auto simp: match_number_def split: option.splits
           dest: match_decimal_shorter match_digits_shorter)

function findall_numbers :: "string \<Rightarrow> string list" where
  "findall_numbers [] = []"
| "findall_numbers (c # cs) =
     (case match_number (c # cs) of
        Some (m, rest) \<Rightarrow> m # findall_numbers rest
      | None \<Rightarrow> findall_numbers cs)"
  by pat_completeness auto
termination
  by (relation "measure length") (auto dest: match_number_shorter)

text \<open>Decimal digits of a number, for f-strings that print an \<open>int\<close>.\<close>

fun digits_of :: "nat \<Rightarrow> string" where
  "digits_of n =
     (if n < 10 then [char_of (48 + n)] else digits_of (n div 10) @ [char_of (48 + n mod 10)])"

declare digits_of.simps [simp del]

definition str_int :: "int \<Rightarrow> string" where
  "str_int i = (if i < 0 then CHR ''-'' # digits_of (nat (- i)) else digits_of (nat i))"

section \<open>agent/decision\_engine.py: collaborators\<close>

text \<open>
  What the engine reads from outside itself is a field of \<open>env\<close>: the fleet registry
  (\<open>fleet_service.buses\<close>, \<open>fleet_service.routes\<close>), the raw route table, the Redis
  client, the position and weather tools, the retrieval index and the optional language
  model. The tools are indexed by the number of the plan step that calls them, so that
  two calls may answer differently (live data, jitter). Python's own conversions of a
  string to a number and of an object to text are parameters as well.
\<close>

datatype cache_reply = Miss | Hit pyval | Broken

record env =
  fleet_buses :: pyval
  fleet_routes :: pyval
  routes_raw :: pyval
  redis_on :: bool
  redis_store :: "string \<Rightarrow> cache_reply"
  setex_ok :: bool
  gps_lookup :: "nat \<Rightarrow> pyval \<Rightarrow> (string \<times> pyval) list option"
  weather_lookup :: "nat \<Rightarrow> pyval \<Rightarrow> pyval \<Rightarrow> py_error + pyval"
  float_of_str :: "string \<Rightarrow> real option"
  int_of_str :: "string \<Rightarrow> int option"
  str_of :: "pyval \<Rightarrow> string"
  exc_text :: "py_error \<Rightarrow> string"
  retrieve_with_scores :: "string \<Rightarrow> py_error + (string \<times> real) list"
  retrieve_context :: "string \<Rightarrow> string list"
  rag_min_sim :: real
  llm_on :: bool
  llm_plan :: "string \<Rightarrow> string list \<Rightarrow> pyval"
  llm_answer :: "string \<Rightarrow> string list \<Rightarrow> pyval list \<Rightarrow> string option"

text \<open>\<open>float(x)\<close> and \<open>int(x)\<close>.\<close>

definition py_float :: "env \<Rightarrow> pyval \<Rightarrow> py_error + real" where
  "py_float env v =
     (case v of
        PStr s \<Rightarrow> (case float_of_str env s of None \<Rightarrow> Inl ValueError | Some r \<Rightarrow> Inr r)
      | _ \<Rightarrow> (case num_of v of None \<Rightarrow> Inl TypeError | Some r \<Rightarrow> Inr r))"

definition py_int :: "env \<Rightarrow> pyval \<Rightarrow> py_error + int" where
  "py_int env v =
     (case v of
        PStr s \<Rightarrow> (case int_of_str env s of None \<Rightarrow> Inl ValueError | Some n \<Rightarrow> Inr n)
      | PInt n \<Rightarrow> Inr n
      | PBool b \<Rightarrow> Inr (if b then 1 else 0)
      | PFloat r \<Rightarrow> Inr (trunc r)
      | _ \<Rightarrow> Inl TypeError)"

text \<open>An f-string field: a string prints as itself, an \<open>int\<close> in decimal.\<close>

definition fmt :: "env \<Rightarrow> pyval \<Rightarrow> string" where
  "fmt env v = (case v of PStr s \<Rightarrow> s | PInt n \<Rightarrow> str_int n | _ \<Rightarrow> str_of env v)"

text \<open>\<open>==\<close>: numbers compare by value across \<open>bool\<close>, \<open>int\<close> and \<open>float\<close>.\<close>

definition py_eq :: "pyval \<Rightarrow> pyval \<Rightarrow> bool" where
  "py_eq a b =
     (case (num_of a, num_of b) of
        (Some x, Some y) \<Rightarrow> x = y
      | (None, None) \<Rightarrow> a = b
      | _ \<Rightarrow> False)"

text \<open>\<open>for x in v\<close>: a string yields its characters, a dict its keys.\<close>

definition py_iter :: "pyval \<Rightarrow> py_error + pyval list" where
  "py_iter v =
     (case v of
        PList xs \<Rightarrow> Inr xs
      | PStr s \<Rightarrow> Inr (map (\<lambda>c. PStr [c]) s)
      | PDict kvs \<Rightarrow> Inr (map (\<lambda>kv. PStr (fst kv)) kvs)
      | _ \<Rightarrow> Inl TypeError)"

text \<open>\<open>k in v\<close> for a string \<open>k\<close>.\<close>

definition py_in :: "string \<Rightarrow> pyval \<Rightarrow> py_error + bool" where
  "py_in k v =
     (case v of
        PDict kvs \<Rightarrow> Inr (k \<in> set (map fst kvs))
      | PList xs \<Rightarrow> Inr (PStr k \<in> set xs)
      | PStr s \<Rightarrow> Inr (contains k s)
      | _ \<Rightarrow> Inl TypeError)"

definition opt_str :: "string option \<Rightarrow> pyval" where
  "opt_str m = (case m of None \<Rightarrow> PNone | Some s \<Rightarrow> PStr s)"

section \<open>agent/decision\_engine.py: planner and guardrails\<close>

definition extract_bus_id :: "string \<Rightarrow> string option" where
  "extract_bus_id t = search_id CHR ''B'' t"

definition mk_step :: "string \<Rightarrow> (string \<times> pyval) list \<Rightarrow> pyval" where
  "mk_step tool params = PDict [(''tool'', PStr tool), (''params'', PDict params)]"

definition eta_keywords :: "string list" where
  "eta_keywords = [''when'', ''arrive'', ''eta'', ''reach'', ''late'', ''delay'']"

definition weather_keywords :: "string list" where
  "weather_keywords = [''weather'', ''rain'', ''sunny'', ''haze'', ''temperature'']"

definition fallback_plan :: "string \<Rightarrow> pyval list" where
  "fallback_plan query =
     (let q = py_lower query;
          bus_m = search_id CHR ''B'' query;
          bus_id = opt_str bus_m;
          route_id = opt_str (map_option py_upper (search_id CHR ''R'' query));
          p1 = (if any_in eta_keywords q
                then [mk_step ''weather'' [],
                      mk_step ''eta'' [(''bus_id'', bus_id), (''stop_id'', PStr ''S1'')]]
                else []);
          p2 = (if any_in weather_keywords q
                then (if truthy bus_id
                      then [mk_step ''gps'' [(''bus_id'', bus_id)], mk_step ''weather'' []]
                      else if truthy route_id
                      then [mk_step ''weather'' [(''route_id'', route_id)]]
                      else [mk_step ''weather'' []])
                else []);
          p3 = (if contains ''where'' q \<or> contains ''location'' q \<or> contains ''status'' q
                   \<or> bus_m \<noteq> None
                then [mk_step ''gps'' [(''bus_id'', bus_id)]]
                else []);
          plan = p1 @ p2 @ p3
      in if plan = [] then [mk_step ''none'' []] else plan)"

definition transport_keywords :: "string list" where
  "transport_keywords =
     [''bus'', ''buses'', ''route'', ''stop'', ''station'', ''eta'', ''when'', ''arrive'',
      ''reach'', ''delay'', ''traffic'', ''driver'', ''location'']"

definition is_transport_query :: "string \<Rightarrow> bool" where
  "is_transport_query query =
     (if any_in transport_keywords (py_lower query) then True
      else if search_id CHR ''B'' query \<noteq> None \<or> search_id CHR ''R'' query \<noteq> None
              \<or> search_id CHR ''S'' query \<noteq> None
      then True
      else False)"

text \<open>\<open>sorted({m.group(0).upper() for m in re.finditer(...)})\<close>\<close>

definition sorted_ids :: "char \<Rightarrow> string \<Rightarrow> string list" where
  "sorted_ids L t = sort (remdups (map py_upper (finditer_ids L t)))"

record entities =
  ent_buses :: "string list"
  ent_routes :: "string list"
  ent_stops :: "string list"

definition extract_entities :: "string \<Rightarrow> entities" where
  "extract_entities t =
     \<lparr> ent_buses = sorted_ids CHR ''B'' t,
       ent_routes = sorted_ids CHR ''R'' t,
       ent_stops = sorted_ids CHR ''S'' t \<rparr>"

text \<open>The first identifier of the list that is not in the registry; the membership test
  raises when the registry attribute is not a container.\<close>

fun first_missing :: "pyval \<Rightarrow> string list \<Rightarrow> py_error + string option" where
  "first_missing reg [] = Inr None"
| "first_missing reg (x # xs) =
     (case py_in x reg of
        Inl e \<Rightarrow> Inl e
      | Inr True \<Rightarrow> first_missing reg xs
      | Inr False \<Rightarrow> Inr (Some x))"

definition bus_missing_msg :: "string \<Rightarrow> string" where
  "bus_missing_msg bus_id =
     ''No information available: I could not find any bus with ID '' @ bus_id
       @ '' in the current fleet data.''"

definition route_missing_msg :: "string \<Rightarrow> string" where
  "route_missing_msg route_id =
     ''No information available: I could not find any route with ID '' @ route_id
       @ '' in the current fleet data.''"

definition validate_body :: "env \<Rightarrow> string \<Rightarrow> py_error + string option" where
  "validate_body env query =
     (let ents = extract_entities query in
      case first_missing (fleet_buses env) (ent_buses ents) of
        Inl e \<Rightarrow> Inl e
      | Inr (Some bus_id) \<Rightarrow> Inr (Some (bus_missing_msg bus_id))
      | Inr None \<Rightarrow>
         (case first_missing (fleet_routes env) (ent_routes ents) of
            Inl e \<Rightarrow> Inl e
          | Inr (Some route_id) \<Rightarrow> Inr (Some (route_missing_msg route_id))
          | Inr None \<Rightarrow> Inr None))"

text \<open>The \<open>try ... except Exception: return None\<close> around the body.\<close>

definition validate_referenced_entities :: "env \<Rightarrow> string \<Rightarrow> string option" where
  "validate_referenced_entities env query =
     (case validate_body env query of Inl e \<Rightarrow> None | Inr r \<Rightarrow> r)"

section \<open>agent/decision\_engine.py: executing a plan\<close>

text \<open>
  The loop of \<open>ask\<close> keeps \<open>tool_results\<close>, \<open>last_bus_loc\<close> and \<open>last_weather\<close> as
  local variables and reads and writes the Redis store; they are the state threaded
  through the steps. Within one call no entry of the store expires.
\<close>

record exec_state =
  tool_results :: "pyval list"
  last_bus_loc :: pyval
  last_weather :: pyval
  store :: "string \<Rightarrow> cache_reply"

text \<open>
  How the body of one iteration ends: by an exception that reaches the handler of the
  step, by \<open>continue\<close> (the cached result is already appended), or by falling through to
  the \<open>tool_results.append\<close> at the end of the loop body with a result.
\<close>

datatype outcome = Raise py_error exec_state | Continue exec_state | Normal pyval exec_state

definition trace_entry :: "pyval \<Rightarrow> pyval \<Rightarrow> pyval" where
  "trace_entry step result = PDict [(''step'', step), (''result'', result)]"

definition append_result :: "pyval \<Rightarrow> pyval \<Rightarrow> exec_state \<Rightarrow> exec_state" where
  "append_result step result st =
     st\<lparr>tool_results := tool_results st @ [trace_entry step result]\<rparr>"

text \<open>\<open>await redis_client.get(key)\<close> followed by \<open>json.loads\<close>, inside \<open>try ... except: pass\<close>:
  only a stored, well-formed value is a hit.\<close>

definition cache_hit :: "exec_state \<Rightarrow> string \<Rightarrow> pyval option" where
  "cache_hit st key = (case store st key of Hit v \<Rightarrow> Some v | _ \<Rightarrow> None)"

definition cache_store :: "env \<Rightarrow> string option \<Rightarrow> pyval \<Rightarrow> exec_state \<Rightarrow> exec_state" where
  "cache_store env cache_key result st =
     (case cache_key of
        Some key \<Rightarrow>
          if redis_on env \<and> setex_ok env then st\<lparr>store := (store st)(key := Hit result)\<rparr> else st
      | None \<Rightarrow> st)"

definition round_half_even :: "real \<Rightarrow> int" where
  "round_half_even y =
     (let f = \<lfloor>y\<rfloor>; r = y - of_int f in
      if r < 1 / 2 then f else if 1 / 2 < r then f + 1 else if even f then f else f + 1)"

definition py_round :: "nat \<Rightarrow> real \<Rightarrow> real" where
  "py_round n x = of_int (round_half_even (x * 10 ^ n)) / 10 ^ n"

subsection \<open>The gps step\<close>

definition gps_step :: "env \<Rightarrow> string \<Rightarrow> nat \<Rightarrow> (string \<times> pyval) list \<Rightarrow> exec_state \<Rightarrow> outcome" where
  "gps_step env user_query i params st =
     (let bus_id = py_or (alist_get params ''bus_id'') (opt_str (extract_bus_id user_query)) in
      if truthy bus_id then
        (let result =
           (case gps_lookup env i bus_id of
              None \<Rightarrow> PDict [(''error'', PStr (''No GPS data for bus '' @ fmt env bus_id))]
            | Some live \<Rightarrow>
               if live \<noteq> [] then
                 PDict [(''bus_id'', alist_get_default live ''bus_id'' bus_id),
                        (''lat'', alist_get live ''lat''),
                        (''lon'', alist_get live ''lon''),
                        (''speed_kmph'', alist_get_default live ''speed_kmph'' (PFloat 20))]
               else PDict [(''error'', PStr (''No GPS data for bus '' @ fmt env bus_id))])
         in Normal result (st\<lparr>last_bus_loc := result\<rparr>))
      else Normal (PDict [(''error'', PStr ''No bus_id provided for gps tool'')]) st)"

subsection \<open>The weather step\<close>

definition dict_or_none :: "pyval \<Rightarrow> pyval" where
  "dict_or_none v = (if is_dict v then v else PNone)"

definition weather_coords :: "(string \<times> pyval) list \<Rightarrow> exec_state \<Rightarrow> pyval \<times> pyval" where
  "weather_coords params st =
     (let lat = alist_get params ''lat''; lon = alist_get params ''lon'' in
      if (lat = PNone \<or> lon = PNone) \<and> truthy (last_bus_loc st) \<and> is_dict (last_bus_loc st)
      then (case last_bus_loc st of
              PDict d \<Rightarrow> (alist_get d ''lat'', alist_get d ''lon'')
            | _ \<Rightarrow> (lat, lon))
      else (lat, lon))"

definition weather_cache_key :: "env \<Rightarrow> real \<Rightarrow> real \<Rightarrow> string" where
  "weather_cache_key env lat lon =
     ''weather:'' @ str_of env (PFloat (py_round 3 lat)) @ '':''
       @ str_of env (PFloat (py_round 3 lon))"

definition weather_fetch ::
  "env \<Rightarrow> nat \<Rightarrow> pyval \<Rightarrow> pyval \<Rightarrow> string option \<Rightarrow> exec_state \<Rightarrow> outcome" where
  "weather_fetch env i lat lon cache_key st =
     (case weather_lookup env i lat lon of
        Inl e \<Rightarrow> Raise e st
      | Inr result \<Rightarrow>
         (let st1 = st\<lparr>last_weather := dict_or_none result\<rparr> in
          Normal result (if is_dict result then cache_store env cache_key result st1 else st1)))"

definition weather_step ::
  "env \<Rightarrow> nat \<Rightarrow> (string \<times> pyval) list \<Rightarrow> pyval \<Rightarrow> exec_state \<Rightarrow> outcome" where
  "weather_step env i params step st =
     (case weather_coords params st of
        (lat, lon) \<Rightarrow>
          if lat \<noteq> PNone \<and> lon \<noteq> PNone then
            (if redis_on env then
               (case py_float env lat of
                  Inl e \<Rightarrow> Raise e st
                | Inr la \<Rightarrow>
                   (case py_float env lon of
                      Inl e \<Rightarrow> Raise e st
                    | Inr lo \<Rightarrow>
                       (let cache_key = weather_cache_key env la lo in
                        case cache_hit st cache_key of
                          Some cached \<Rightarrow>
                            Continue (append_result step cached
                                        (st\<lparr>last_weather := dict_or_none cached\<rparr>))
                        | None \<Rightarrow> weather_fetch env i lat lon (Some cache_key) st)))
             else weather_fetch env i lat lon None st)
          else Normal (PDict [(''error'', PStr ''No coordinates available for weather tool'')]) st)"

subsection \<open>The eta step: the fleet registry\<close>

text \<open>services/fleet\_service.py: \<open>get_bus_status\<close> and \<open>get_route\<close>.\<close>

definition get_bus_status :: "env \<Rightarrow> pyval \<Rightarrow> py_error + pyval" where
  "get_bus_status env bus_id =
     (case fleet_buses env of
        PDict bs \<Rightarrow>
          (case dict_get_key bs bus_id of
             Inl e \<Rightarrow> Inl e
           | Inr bus \<Rightarrow>
              if \<not> truthy bus then Inr PNone
              else (case bus of
                      PDict b \<Rightarrow>
                        Inr (PDict [(''bus_id'', bus_id),
                                    (''status'', alist_get_default b ''status'' (PStr ''unknown'')),
                                    (''status_message'',
                                       alist_get_default b ''status_message''
                                         (PStr ''No status available'')),
                                    (''lat'', alist_get b ''lat''),
                                    (''lon'', alist_get b ''lon''),
                                    (''route_id'', alist_get b ''route_id''),
                                    (''speed_kmph'', alist_get_default b ''speed_kmph'' (PFloat 20))])
                    | _ \<Rightarrow> Inl AttributeError))
      | _ \<Rightarrow> Inl AttributeError)"

definition get_route :: "env \<Rightarrow> pyval \<Rightarrow> py_error + pyval" where
  "get_route env route_id =
     (case fleet_routes env of
        PDict rs \<Rightarrow> dict_get_key rs route_id
      | _ \<Rightarrow> Inl AttributeError)"

text \<open>\<open>for s in stops: if s.get("stop_id") == stop_id: route_stop = s; break\<close>\<close>

fun scan_stops :: "pyval list \<Rightarrow> pyval \<Rightarrow> py_error + pyval" where
  "scan_stops [] stop_id = Inr PNone"
| "scan_stops (s # ss) stop_id =
     (case py_get s ''stop_id'' of
        Inl e \<Rightarrow> Inl e
      | Inr v \<Rightarrow> if py_eq v stop_id then Inr s else scan_stops ss stop_id)"

definition stop_from_registry :: "env \<Rightarrow> pyval \<Rightarrow> pyval \<Rightarrow> py_error + pyval" where
  "stop_from_registry env bus_id stop_id =
     (if truthy bus_id then
        (case get_bus_status env bus_id of
           Inl e \<Rightarrow> Inl e
         | Inr status \<Rightarrow>
            (let route_id = (case status of PDict s \<Rightarrow> alist_get s ''route_id'' | _ \<Rightarrow> PNone) in
             if truthy route_id then
               (case get_route env route_id of
                  Inl e \<Rightarrow> Inl e
                | Inr route \<Rightarrow>
                   (case py_get route ''stops'' of
                      Inl e \<Rightarrow> Inl e
                    | Inr stops \<Rightarrow>
                       (case py_iter (py_or stops (PList [])) of
                          Inl e \<Rightarrow> Inl e
                        | Inr ss \<Rightarrow> scan_stops ss stop_id)))
             else Inr PNone))
      else Inr PNone)"

definition lat_lon_of :: "pyval \<Rightarrow> pyval \<times> pyval" where
  "lat_lon_of v = (case v of PDict d \<Rightarrow> (alist_get d ''lat'', alist_get d ''lon'') | _ \<Rightarrow> (PNone, PNone))"

subsection \<open>The eta step: the raw route table\<close>

fun find_in_stops :: "env \<Rightarrow> pyval list \<Rightarrow> pyval \<Rightarrow> py_error + pyval option" where
  "find_in_stops env [] stop_id = Inr None"
| "find_in_stops env (stop # ss) stop_id =
     (case py_get stop ''stop_id'' of
        Inl e \<Rightarrow> Inl e
      | Inr v \<Rightarrow>
         if py_eq v stop_id then
           (case lat_lon_of stop of
              (lat, lon) \<Rightarrow>
                if lat \<noteq> PNone \<and> lon \<noteq> PNone then
                  (case py_float env lat of
                     Inl e \<Rightarrow> Inl e
                   | Inr la \<Rightarrow>
                      (case py_float env lon of
                         Inl e \<Rightarrow> Inl e
                       | Inr lo \<Rightarrow> Inr (Some (PDict [(''lat'', PFloat la), (''lon'', PFloat lo)]))))
                else find_in_stops env ss stop_id)
         else find_in_stops env ss stop_id)"

fun find_in_routes :: "env \<Rightarrow> pyval list \<Rightarrow> pyval \<Rightarrow> py_error + pyval option" where
  "find_in_routes env [] stop_id = Inr None"
| "find_in_routes env (route # rs) stop_id =
     (case route of
        PDict r \<Rightarrow>
          (case py_iter (alist_get_default r ''stops'' (PList [])) of
             Inl e \<Rightarrow> Inl e
           | Inr ss \<Rightarrow>
              (case find_in_stops env ss stop_id of
                 Inl e \<Rightarrow> Inl e
               | Inr (Some c) \<Rightarrow> Inr (Some c)
               | Inr None \<Rightarrow> find_in_routes env rs stop_id))
      | _ \<Rightarrow> Inl AttributeError)"

definition find_stop_coords :: "env \<Rightarrow> pyval \<Rightarrow> py_error + pyval" where
  "find_stop_coords env stop_id =
     (if \<not> truthy stop_id \<or> \<not> truthy (routes_raw env) then Inr PNone
      else (case routes_raw env of
              PDict kvs \<Rightarrow>
                (case find_in_routes env (map snd kvs) stop_id of
                   Inl e \<Rightarrow> Inl e
                 | Inr None \<Rightarrow> Inr PNone
                 | Inr (Some c) \<Rightarrow> Inr c)
            | _ \<Rightarrow> Inl AttributeError))"

subsection \<open>The eta step: coordinates in a context document\<close>

fun stop_from_context :: "env \<Rightarrow> string list \<Rightarrow> pyval \<Rightarrow> py_error + (pyval \<times> pyval) option" where
  "stop_from_context env [] stop_id = Inr None"
| "stop_from_context env (d # ds) stop_id =
     (case stop_id of
        PStr sid \<Rightarrow>
          if contains sid d then
            (case findall_numbers d of
               n0 # n1 # _ \<Rightarrow>
                 (case py_float env (PStr n0) of
                    Inl e \<Rightarrow> Inl e
                  | Inr a \<Rightarrow>
                     (case py_float env (PStr n1) of
                        Inl e \<Rightarrow> Inl e
                      | Inr b \<Rightarrow> Inr (Some (PFloat a, PFloat b))))
             | _ \<Rightarrow> stop_from_context env ds stop_id)
          else stop_from_context env ds stop_id
      | _ \<Rightarrow> Inl TypeError)"

subsection \<open>The eta step: the three lookups in order, and the bus\<close>

definition resolve_stop ::
  "env \<Rightarrow> pyval \<Rightarrow> pyval \<Rightarrow> string list \<Rightarrow> py_error + (pyval \<times> pyval)" where
  "resolve_stop env bus_id stop_id context =
     (case stop_from_registry env bus_id stop_id of
        Inl e \<Rightarrow> Inl e
      | Inr route_stop \<Rightarrow>
         (case (if truthy route_stop then lat_lon_of route_stop else (PNone, PNone)) of
            (lat1, lon1) \<Rightarrow>
              (case (if lat1 = PNone then find_stop_coords env stop_id else Inr PNone) of
                 Inl e \<Rightarrow> Inl e
               | Inr stop_coords \<Rightarrow>
                  (case (if lat1 = PNone \<and> truthy stop_coords then lat_lon_of stop_coords
                         else (lat1, lon1)) of
                     (lat2, lon2) \<Rightarrow>
                       if lat2 = PNone \<and> truthy stop_id then
                         (case stop_from_context env context stop_id of
                            Inl e \<Rightarrow> Inl e
                          | Inr (Some c) \<Rightarrow> Inr c
                          | Inr None \<Rightarrow> Inr (lat2, lon2))
                       else Inr (lat2, lon2)))))"

definition resolve_bus :: "env \<Rightarrow> nat \<Rightarrow> exec_state \<Rightarrow> pyval \<Rightarrow> pyval \<times> pyval" where
  "resolve_bus env i st bus_id =
     (case (if truthy (last_bus_loc st) \<and> is_dict (last_bus_loc st)
            then lat_lon_of (last_bus_loc st) else (PNone, PNone)) of
        (lat, lon) \<Rightarrow>
          if (lat = PNone \<or> lon = PNone) \<and> truthy bus_id then
            (case gps_lookup env i bus_id of
               Some live \<Rightarrow>
                 if live \<noteq> [] then (alist_get live ''lat'', alist_get live ''lon'') else (lat, lon)
             | None \<Rightarrow> (lat, lon))
          else (lat, lon))"

subsection \<open>The eta step: distance, speed, weather delay\<close>

definition py_atan2 :: "real \<Rightarrow> real \<Rightarrow> real" where
  "py_atan2 y x =
     (if 0 < x then arctan (y / x)
      else if x < 0 then (if 0 \<le> y then arctan (y / x) + pi else arctan (y / x) - pi)
      else if 0 < y then pi / 2
      else if y < 0 then - (pi / 2)
      else 0)"

definition haversine_km :: "pyval \<Rightarrow> pyval \<Rightarrow> pyval \<Rightarrow> pyval \<Rightarrow> py_error + real" where
  "haversine_km lat1 lon1 lat2 lon2 =
     (case (num_of lat1, num_of lon1, num_of lat2, num_of lon2) of
        (Some a1, Some o1, Some a2, Some o2) \<Rightarrow>
          (let a = haversine_a a1 o1 a2 o2 in
           case py_sqrt a of
             Inl e \<Rightarrow> Inl e
           | Inr sa \<Rightarrow>
              (case py_sqrt (1 - a) of
                 Inl e \<Rightarrow> Inl e
               | Inr sb \<Rightarrow> Inr (6371 * (2 * py_atan2 sa sb))))
      | _ \<Rightarrow> Inl TypeError)"

definition last_speed :: "env \<Rightarrow> exec_state \<Rightarrow> real" where
  "last_speed env st =
     (let speed = (if truthy (last_bus_loc st) \<and> is_dict (last_bus_loc st)
                   then (case last_bus_loc st of PDict d \<Rightarrow> alist_get d ''speed_kmph'' | _ \<Rightarrow> PNone)
                   else PNone)
      in if speed \<noteq> PNone
         then (case py_float env speed of Inl e \<Rightarrow> 25 | Inr r \<Rightarrow> r)
         else 25)"

definition weather_delay_of :: "exec_state \<Rightarrow> pyval" where
  "weather_delay_of st =
     (if truthy (last_weather st) \<and> is_dict (last_weather st)
      then (case last_weather st of
              PDict w \<Rightarrow>
                py_or (py_or (alist_get w ''expected_delay_sec'') (alist_get w ''delay'')) (PInt 0)
            | _ \<Rightarrow> PInt 0)
      else PInt 0)"

definition base_eta :: "real \<Rightarrow> pyval \<Rightarrow> pyval \<Rightarrow> pyval \<Rightarrow> pyval \<Rightarrow> real \<Rightarrow> int" where
  "base_eta dist_km bus_lat bus_lon stop_lat stop_lon speed =
     (if dist_km < 1 / 10 then 2 * 60
      else calculate_eta_seconds bus_lat bus_lon stop_lat stop_lon (PFloat speed) (PFloat 1))"

definition eta_compute ::
  "env \<Rightarrow> exec_state \<Rightarrow> pyval \<Rightarrow> pyval \<Rightarrow> pyval \<Rightarrow> pyval \<Rightarrow> pyval \<Rightarrow> py_error + pyval" where
  "eta_compute env st bus_lat bus_lon stop_lat stop_lon stop_id =
     (case haversine_km bus_lat bus_lon stop_lat stop_lon of
        Inl e \<Rightarrow> Inl e
      | Inr dist_km \<Rightarrow>
         (let speed = last_speed env st;
              eta_sec = base_eta dist_km bus_lat bus_lon stop_lat stop_lon speed
          in case py_int env (weather_delay_of st) of
               Inl e \<Rightarrow> Inl e
             | Inr wd \<Rightarrow>
                Inr (PDict [(''eta_sec'', PInt (eta_sec + wd)),
                            (''distance_km'', PFloat (py_round 2 dist_km)),
                            (''speed_kmph'', PFloat speed),
                            (''stop_id'', stop_id),
                            (''stop'', PDict [(''lat'', stop_lat), (''lon'', stop_lon)])])))"

subsection \<open>The eta step\<close>

definition eta_bus_id :: "string \<Rightarrow> (string \<times> pyval) list \<Rightarrow> pyval" where
  "eta_bus_id user_query params =
     py_or (alist_get params ''bus_id'') (opt_str (extract_bus_id user_query))"

definition eta_stop_id :: "(string \<times> pyval) list \<Rightarrow> pyval" where
  "eta_stop_id params =
     py_or (py_or (alist_get params ''stop_id'') (alist_get params ''stop'')) (PStr ''S1'')"

definition eta_cache_key :: "env \<Rightarrow> pyval \<Rightarrow> pyval \<Rightarrow> string option" where
  "eta_cache_key env bus_id stop_id =
     (if redis_on env \<and> truthy bus_id \<and> truthy stop_id
      then Some (''eta:'' @ fmt env bus_id @ '':'' @ fmt env stop_id)
      else None)"

definition eta_cached :: "env \<Rightarrow> exec_state \<Rightarrow> pyval \<Rightarrow> pyval \<Rightarrow> pyval option" where
  "eta_cached env st bus_id stop_id =
     (case eta_cache_key env bus_id stop_id of
        Some key \<Rightarrow> cache_hit st key
      | None \<Rightarrow> None)"

definition eta_unresolved :: "pyval \<Rightarrow> pyval" where
  "eta_unresolved stop_id =
     PDict [(''eta_sec'', PInt (20 * 60)), (''stop_id'', stop_id), (''fallback'', PBool True)]"

definition eta_on_exception :: pyval where
  "eta_on_exception = PDict [(''eta_sec'', PInt (20 * 60)), (''fallback'', PBool True)]"

definition all_resolved :: "pyval \<Rightarrow> pyval \<times> pyval \<Rightarrow> pyval \<times> pyval \<Rightarrow> bool" where
  "all_resolved bus_id bus stop =
     (truthy bus_id \<and> fst bus \<noteq> PNone \<and> snd bus \<noteq> PNone \<and> fst stop \<noteq> PNone \<and> snd stop \<noteq> PNone)"

definition eta_step ::
  "env \<Rightarrow> string \<Rightarrow> string list \<Rightarrow> nat \<Rightarrow> (string \<times> pyval) list \<Rightarrow> pyval \<Rightarrow> exec_state \<Rightarrow> outcome"
  where
  "eta_step env user_query context i params step st =
     (let bus_id = eta_bus_id user_query params;
          stop_id = eta_stop_id params
      in case eta_cached env st bus_id stop_id of
           Some cached \<Rightarrow> Continue (append_result step cached st)
         | None \<Rightarrow>
            (case resolve_stop env bus_id stop_id context of
               Inl e \<Rightarrow> Raise e st
             | Inr stop \<Rightarrow>
                (let bus = resolve_bus env i st bus_id in
                 if \<not> all_resolved bus_id bus stop then Normal (eta_unresolved stop_id) st
                 else
                   (case eta_compute env st (fst bus) (snd bus) (fst stop) (snd stop) stop_id of
                      Inl e \<Rightarrow> Raise e st
                    | Inr result \<Rightarrow>
                       Normal result
                         (cache_store env (eta_cache_key env bus_id stop_id) result st)))))"

subsection \<open>The loop over the plan\<close>

definition step_body ::
  "env \<Rightarrow> string \<Rightarrow> string list \<Rightarrow> nat \<Rightarrow> pyval \<Rightarrow> (string \<times> pyval) list \<Rightarrow> pyval
     \<Rightarrow> exec_state \<Rightarrow> outcome" where
  "step_body env user_query context i tool_name params step st =
     (if tool_name = PStr ''gps'' then gps_step env user_query i params st
      else if tool_name = PStr ''weather'' then weather_step env i params step st
      else if tool_name = PStr ''eta'' then eta_step env user_query context i params step st
      else Normal (PDict [(''info'', PStr ''no-op'')]) st)"

text \<open>\<open>except Exception as e\<close> at the step boundary.\<close>

definition on_exception :: "env \<Rightarrow> pyval \<Rightarrow> py_error \<Rightarrow> pyval" where
  "on_exception env tool_name e =
     (if tool_name = PStr ''eta'' then eta_on_exception
      else PDict [(''error'', PStr (exc_text env e))])"

definition step_params :: "(string \<times> pyval) list \<Rightarrow> (string \<times> pyval) list" where
  "step_params kvs = (case alist_get kvs ''params'' of PDict p \<Rightarrow> p | _ \<Rightarrow> [])"

definition run_step ::
  "env \<Rightarrow> string \<Rightarrow> string list \<Rightarrow> nat \<Rightarrow> pyval \<Rightarrow> exec_state \<Rightarrow> py_error + exec_state" where
  "run_step env user_query context i step st =
     (case step of
        PDict kvs \<Rightarrow>
          (let tool_name = alist_get kvs ''tool''; params = step_params kvs in
           case step_body env user_query context i tool_name params step st of
             Continue st' \<Rightarrow> Inr st'
           | Normal result st' \<Rightarrow> Inr (append_result step result st')
           | Raise e st' \<Rightarrow> Inr (append_result step (on_exception env tool_name e) st'))
      | _ \<Rightarrow> Inl AttributeError)"

fun run_plan ::
  "env \<Rightarrow> string \<Rightarrow> string list \<Rightarrow> nat \<Rightarrow> pyval list \<Rightarrow> exec_state \<Rightarrow> py_error + exec_state"
  where
  "run_plan env user_query context i [] st = Inr st"
| "run_plan env user_query context i (step # rest) st =
     (case run_step env user_query context i step st of
        Inl e \<Rightarrow> Inl e
      | Inr st' \<Rightarrow> run_plan env user_query context (Suc i) rest st')"

section \<open>agent/decision\_engine.py: composing the answer, and \<open>ask\<close>\<close>

text \<open>
  The scan shared by the text composer of \<open>ask\<close> and by the notifier: the result of the
  first trace entry whose step is an eta step and whose result is a dict.
\<close>

fun scan_first_eta :: "pyval list \<Rightarrow> py_error + pyval option" where
  "scan_first_eta [] = Inr None"
| "scan_first_eta (tr # trs) =
     (case py_get tr ''step'' of
        Inl e \<Rightarrow> Inl e
      | Inr s \<Rightarrow>
         (case py_get (py_or s (PDict [])) ''tool'' of
            Inl e \<Rightarrow> Inl e
          | Inr t \<Rightarrow>
             (case tr of
                PDict kvs \<Rightarrow>
                  if t = PStr ''eta'' \<and> is_dict (alist_get kvs ''result'')
                  then Inr (Some (alist_get kvs ''result''))
                  else scan_first_eta trs
              | _ \<Rightarrow> Inl AttributeError)))"

text \<open>\<open>eta_res.get("eta_sec") or eta_res.get("eta")\<close>\<close>

definition eta_value :: "pyval \<Rightarrow> pyval" where
  "eta_value eta_res =
     (case eta_res of
        PDict r \<Rightarrow> py_or (alist_get r ''eta_sec'') (alist_get r ''eta'')
      | _ \<Rightarrow> PNone)"

definition plural :: "int \<Rightarrow> string" where
  "plural n = (if n \<noteq> 1 then ''s'' else [])"

definition eta_text :: "int \<Rightarrow> string" where
  "eta_text eta_sec =
     (let hours = eta_sec div 3600; minutes = (eta_sec mod 3600) div 60 in
      if 0 < hours then
        str_int hours @ '' hour'' @ plural hours
          @ (if minutes \<noteq> 0 then '' '' @ str_int minutes @ '' minute'' @ plural minutes else [])
      else if 0 < minutes then str_int minutes @ '' minute'' @ plural minutes
      else ''a few seconds'')"

definition no_information :: string where
  "no_information = ''No information available.''"

definition fallback_answer :: "env \<Rightarrow> pyval list \<Rightarrow> py_error + string" where
  "fallback_answer env trace =
     (case scan_first_eta trace of
        Inl e \<Rightarrow> Inl e
      | Inr None \<Rightarrow> Inr no_information
      | Inr (Some eta_res) \<Rightarrow>
         (let eta_sec = eta_value eta_res;
              eta_stop = (case eta_res of PDict r \<Rightarrow> alist_get r ''stop_id'' | _ \<Rightarrow> PNone)
          in if eta_sec \<noteq> PNone then
               (case py_int env eta_sec of
                  Inl e \<Rightarrow> Inr no_information
                | Inr n \<Rightarrow>
                   Inr (''The bus is expected to reach stop '' @ fmt env (py_or eta_stop (PStr []))
                          @ '' in about '' @ eta_text n @ ''.''))
             else Inr no_information))"

record reply =
  answer :: string
  trace :: "pyval list"
  context_docs :: "string list"

definition abstain :: "string \<Rightarrow> reply" where
  "abstain msg = \<lparr> answer = msg, trace = [], context_docs = [] \<rparr>"

definition out_of_domain_msg :: string where
  "out_of_domain_msg =
     ''I am a transport assistant and only answer questions about ''
       @ ''buses, routes and stops. No information is available for this question.''"

definition unreliable_msg :: string where
  "unreliable_msg =
     ''I could not find reliable information for this question in my current data.''"

definition sorry_msg :: string where
  "sorry_msg = ''Sorry, something went wrong when answering your question.''"

definition max_sim :: "(string \<times> real) list \<Rightarrow> real" where
  "max_sim pairs = (case map snd pairs of [] \<Rightarrow> 0 | x # xs \<Rightarrow> fold max xs x)"

definition init_state :: "env \<Rightarrow> exec_state" where
  "init_state env =
     \<lparr> tool_results = [], last_bus_loc = PNone, last_weather = PNone, store = redis_store env \<rparr>"

text \<open>Planning, execution and composition, once the first three guardrails have passed.\<close>

definition choose_plan :: "env \<Rightarrow> string \<Rightarrow> string \<Rightarrow> string list \<Rightarrow> pyval" where
  "choose_plan env user_query query ctx =
     (let plan = (if llm_on env then llm_plan env query ctx else PNone) in
      if truthy plan then plan else PList (fallback_plan user_query))"

definition compose :: "env \<Rightarrow> string \<Rightarrow> string list \<Rightarrow> pyval list \<Rightarrow> py_error + string" where
  "compose env user_query ctx results =
     (let final_answer =
            (if llm_on env
             then (case llm_answer env user_query ctx results of
                     Some t \<Rightarrow> if t \<noteq> [] then py_strip t else []
                   | None \<Rightarrow> [])
             else [])
      in if final_answer \<noteq> [] then Inr final_answer else fallback_answer env results)"

definition plan_and_execute :: "env \<Rightarrow> string \<Rightarrow> string \<Rightarrow> string list \<Rightarrow> py_error + reply" where
  "plan_and_execute env user_query query ctx =
     (case py_iter (choose_plan env user_query query ctx) of
        Inl e \<Rightarrow> Inl e
      | Inr steps \<Rightarrow>
         (case run_plan env user_query ctx 0 steps (init_state env) of
            Inl e \<Rightarrow> Inl e
          | Inr st \<Rightarrow>
             (case compose env user_query ctx (tool_results st) of
                Inl e \<Rightarrow> Inl e
              | Inr a \<Rightarrow> Inr \<lparr> answer = a, trace = tool_results st, context_docs = ctx \<rparr>)))"

definition relevance_and_rest :: "env \<Rightarrow> string \<Rightarrow> string \<Rightarrow> py_error + reply" where
  "relevance_and_rest env user_query query =
     (case retrieve_with_scores env query of
        Inl e \<Rightarrow> Inl e
      | Inr pairs \<Rightarrow>
         (let docs = map fst pairs in
          if docs \<noteq> [] \<and> max_sim pairs < rag_min_sim env then Inr (abstain unreliable_msg)
          else plan_and_execute env user_query query
                 (if docs \<noteq> [] then docs else retrieve_context env query)))"

definition ask_body :: "env \<Rightarrow> string \<Rightarrow> py_error + reply" where
  "ask_body env user_query =
     (let query = py_strip user_query in
      if query = [] then Inr (abstain no_information)
      else if \<not> is_transport_query query then Inr (abstain out_of_domain_msg)
      else (case validate_referenced_entities env query of
              Some invalid_reason \<Rightarrow>
                if invalid_reason \<noteq> [] then Inr (abstain invalid_reason)
                else relevance_and_rest env user_query query
            | None \<Rightarrow> relevance_and_rest env user_query query))"

text \<open>The outermost \<open>try ... except Exception\<close> of \<open>ask\<close>.\<close>

definition ask :: "env \<Rightarrow> string \<Rightarrow> reply" where
  "ask env user_query =
     (case ask_body env user_query of
        Inl e \<Rightarrow> abstain sorry_msg
      | Inr r \<Rightarrow> r)"

section \<open>agent/notification\_agent.py: \<open>process_subscriptions\<close>\<close>

text \<open>
  A subscription is a \<open>Subscription\<close> object or a dict. A field is read as
  \<open>getattr(sub, f, None) or (sub.get(f) if isinstance(sub, dict) else None)\<close>: on an
  object a falsy attribute reads as \<open>None\<close>; a dict has no such attribute, so the value
  under the key is returned as it is. The channel of an object defaults to "console".
\<close>

datatype subscription = SubObject "(string \<times> pyval) list" | SubDict "(string \<times> pyval) list"

definition sub_field :: "subscription \<Rightarrow> string \<Rightarrow> pyval" where
  "sub_field sub f =
     (case sub of
        SubObject attrs \<Rightarrow> py_or (alist_get attrs f) PNone
      | SubDict d \<Rightarrow> py_or PNone (alist_get d f))"

definition sub_channel :: "subscription \<Rightarrow> pyval" where
  "sub_channel sub =
     (case sub of
        SubObject attrs \<Rightarrow> py_or (alist_get attrs ''channel'') (PStr ''console'')
      | SubDict d \<Rightarrow> py_or PNone (alist_get d ''channel''))"

text \<open>\<open>int(notify_before) if notify_before is not None else 300\<close>, 300 on any exception.\<close>

definition notify_threshold :: "env \<Rightarrow> pyval \<Rightarrow> int" where
  "notify_threshold env notify_before =
     (if notify_before \<noteq> PNone
      then (case py_int env notify_before of Inl e \<Rightarrow> 300 | Inr n \<Rightarrow> n)
      else 300)"

definition eta_query :: "env \<Rightarrow> pyval \<Rightarrow> pyval \<Rightarrow> string" where
  "eta_query env bus_id stop_id =
     ''ETA for Bus '' @ fmt env bus_id @ '' to reach stop '' @ fmt env stop_id @ ''?''"

definition arrival_msg :: "env \<Rightarrow> pyval \<Rightarrow> pyval \<Rightarrow> int \<Rightarrow> string" where
  "arrival_msg env bus_id stop_id eta_sec =
     (let minutes = max 1 (eta_sec div 60) in
      ''Bus '' @ fmt env bus_id @ '' is expected to reach stop '' @ fmt env stop_id
        @ '' in about '' @ str_int minutes @ '' minute'' @ plural minutes @ ''.'')"

text \<open>\<open>d.get(k, default)\<close> on an arbitrary object.\<close>

definition py_get_default :: "pyval \<Rightarrow> string \<Rightarrow> pyval \<Rightarrow> py_error + pyval" where
  "py_get_default v k d =
     (case v of PDict kvs \<Rightarrow> Inr (alist_get_default kvs k d) | _ \<Rightarrow> Inl AttributeError)"

text \<open>The ETA the notifier reads from the result of \<open>engine.ask\<close>: \<open>None\<close> when the trace
  has no eta step with a dict result.\<close>

definition trace_eta :: "pyval \<Rightarrow> py_error + pyval" where
  "trace_eta engine_result =
     (case py_get_default engine_result ''tool_results'' (PList []) of
        Inl e \<Rightarrow> Inl e
      | Inr trs \<Rightarrow>
         (case py_iter trs of
            Inl e \<Rightarrow> Inl e
          | Inr entries \<Rightarrow>
             (case scan_first_eta entries of
                Inl e \<Rightarrow> Inl e
              | Inr None \<Rightarrow> Inr PNone
              | Inr (Some eta_res) \<Rightarrow> Inr (eta_value eta_res))))"

text \<open>A delivery is a call of \<open>notify_user\<close>: user, message, channel.\<close>

type_synonym delivery = "pyval \<times> string \<times> pyval"

definition sub_body ::
  "env \<Rightarrow> (string \<Rightarrow> py_error + pyval) \<Rightarrow> subscription \<Rightarrow> py_error + delivery list" where
  "sub_body env engine_ask sub =
     (let user_id = sub_field sub ''user_id'';
          bus_id = sub_field sub ''bus_id'';
          stop_id = sub_field sub ''stop_id'';
          notify_before = notify_threshold env (sub_field sub ''notify_before_sec'');
          channel = sub_channel sub
      in if \<not> truthy user_id \<or> \<not> truthy bus_id \<or> \<not> truthy stop_id then Inr []
         else
           (case engine_ask (eta_query env bus_id stop_id) of
              Inl e \<Rightarrow> Inl e
            | Inr engine_result \<Rightarrow>
               (case trace_eta engine_result of
                  Inl e \<Rightarrow> Inl e
                | Inr eta_sec \<Rightarrow>
                   if eta_sec = PNone then Inr []
                   else
                     (case py_int env eta_sec of
                        Inl e \<Rightarrow> Inr []
                      | Inr n \<Rightarrow>
                         if 0 \<le> n \<and> n \<le> notify_before
                         then Inr [(user_id, arrival_msg env bus_id stop_id n, channel)]
                         else Inr []))))"

text \<open>The \<open>try ... except Exception\<close> around one subscription.\<close>

definition process_sub ::
  "env \<Rightarrow> (string \<Rightarrow> py_error + pyval) \<Rightarrow> subscription \<Rightarrow> delivery list" where
  "process_sub env engine_ask sub =
     (case sub_body env engine_ask sub of Inl e \<Rightarrow> [] | Inr ds \<Rightarrow> ds)"

text \<open>One cycle: the subscriptions could not be loaded (\<open>None\<close>) or are a list, of which
  the first 20 are processed in order; the engine may answer differently at each.\<close>

definition process_subscriptions ::
  "env \<Rightarrow> (nat \<Rightarrow> string \<Rightarrow> py_error + pyval) \<Rightarrow> subscription list option \<Rightarrow> delivery list"
  where
  "process_subscriptions env engine_ask loaded =
     (case loaded of
        None \<Rightarrow> []
      | Some subs \<Rightarrow>
         concat (map (\<lambda>(idx, sub). process_sub env (engine_ask idx) sub)
                     (enumerate 0 (take 20 subs))))"

section \<open>agent/supervisor\_agent.py: \<open>handle_user_query\<close>\<close>

text \<open>
  The supervisor takes the result of the planner agent (the reply of \<open>ask\<close> as a dict,
  possibly from the response cache) and the fleet registry. Of its own result only the
  answer is modelled; \<open>plan\<close> and \<open>executed\<close> repeat the planner's result and the trace.
\<close>

datatype sup_reply = SupError | SupPassthrough pyval | SupAnswer string

text \<open>\<open>ExecutorAgent.ensure_tool_results\<close> reads \<open>tr.get("step", {})\<close> before its own
  \<open>try\<close>: it raises exactly when an entry is not a dict.\<close>

definition ensure_tool_results :: "pyval list \<Rightarrow> py_error + unit" where
  "ensure_tool_results trs = (if list_all is_dict trs then Inr () else Inl AttributeError)"

definition has_key :: "pyval \<Rightarrow> string \<Rightarrow> bool" where
  "has_key v k = (case v of PDict kvs \<Rightarrow> k \<in> set (map fst kvs) | _ \<Rightarrow> False)"

text \<open>\<open>(step.get("tool") or "").lower()\<close>\<close>

definition tool_lower :: "pyval \<Rightarrow> py_error + string" where
  "tool_lower step =
     (case py_get step ''tool'' of
        Inl e \<Rightarrow> Inl e
      | Inr t \<Rightarrow>
         (case py_or t (PStr []) of
            PStr s \<Rightarrow> Inr (py_lower s)
          | _ \<Rightarrow> Inl AttributeError))"

text \<open>The loop that picks \<open>eta_entry\<close> and \<open>gps_entry\<close>: it has no \<open>break\<close>, so the last
  matching entry of the trace wins.\<close>

fun select_entries ::
  "pyval list \<Rightarrow> pyval option \<times> pyval option \<Rightarrow> py_error + (pyval option \<times> pyval option)" where
  "select_entries [] acc = Inr acc"
| "select_entries (tr # trs) (eta_entry, gps_entry) =
     (case tr of
        PDict kvs \<Rightarrow>
          (let step = py_or (alist_get kvs ''step'') (PDict []) in
           if \<not> is_dict step then select_entries trs (eta_entry, gps_entry)
           else
             (case tool_lower step of
                Inl e \<Rightarrow> Inl e
              | Inr tool_name \<Rightarrow>
                 (let res = alist_get kvs ''result'';
                      eta_entry' = (if tool_name = ''eta'' \<and> is_dict res
                                       \<and> (has_key res ''eta_sec'' \<or> has_key res ''eta'')
                                    then Some tr else eta_entry);
                      gps_entry' = (if tool_name = ''gps'' then Some tr else gps_entry)
                  in select_entries trs (eta_entry', gps_entry'))))
      | _ \<Rightarrow> select_entries trs (eta_entry, gps_entry))"

definition dict_or_empty :: "pyval \<Rightarrow> (string \<times> pyval) list" where
  "dict_or_empty v = (case v of PDict kvs \<Rightarrow> kvs | _ \<Rightarrow> [])"

definition entry_eta_res :: "pyval \<Rightarrow> (string \<times> pyval) list" where
  "entry_eta_res eta_entry =
     dict_or_empty (py_or (alist_get (dict_or_empty eta_entry) ''result'') (PDict []))"

definition entry_params :: "pyval \<Rightarrow> py_error + (string \<times> pyval) list" where
  "entry_params eta_entry =
     (case py_get (py_or (alist_get (dict_or_empty eta_entry) ''step'') (PDict [])) ''params'' of
        Inl e \<Rightarrow> Inl e
      | Inr p \<Rightarrow> Inr (dict_or_empty (py_or p (PDict []))))"

definition gps_bus_id :: "pyval option \<Rightarrow> pyval" where
  "gps_bus_id gps_entry =
     (case gps_entry of
        None \<Rightarrow> PNone
      | Some g \<Rightarrow>
         (if truthy g \<and> is_dict (alist_get (dict_or_empty g) ''result'')
          then alist_get (dict_or_empty (alist_get (dict_or_empty g) ''result'')) ''bus_id''
          else PNone))"

definition sup_bus_id :: "(string \<times> pyval) list \<Rightarrow> pyval option \<Rightarrow> pyval" where
  "sup_bus_id params gps_entry =
     py_or (py_or (alist_get params ''bus_id'') (gps_bus_id gps_entry)) (PStr ''the bus'')"

definition sup_stop_id :: "(string \<times> pyval) list \<Rightarrow> (string \<times> pyval) list \<Rightarrow> pyval" where
  "sup_stop_id params eta_res =
     py_or (py_or (alist_get params ''stop_id'') (alist_get eta_res ''stop_id'')) (PStr ''the stop'')"

definition eta_sentence :: "env \<Rightarrow> pyval \<Rightarrow> pyval \<Rightarrow> int \<Rightarrow> string" where
  "eta_sentence env bus_id stop_id eta_sec =
     ''Bus '' @ fmt env bus_id @ '' is expected to reach stop '' @ fmt env stop_id
       @ '' in about '' @ eta_text eta_sec @ ''.''"

text \<open>The other buses of the registry, in its order, that are on the route of the primary
  bus.\<close>

definition main_route_id :: "env \<Rightarrow> pyval \<Rightarrow> py_error + pyval" where
  "main_route_id env bus_id =
     (case bus_id of
        PStr b \<Rightarrow>
          (case get_bus_status env bus_id of
             Inl e \<Rightarrow> Inl e
           | Inr status \<Rightarrow> Inr (case status of PDict s \<Rightarrow> alist_get s ''route_id'' | _ \<Rightarrow> PNone))
      | _ \<Rightarrow> Inr PNone)"

definition alt_buses :: "env \<Rightarrow> pyval \<Rightarrow> pyval \<Rightarrow> py_error + string list" where
  "alt_buses env bus_id route_id =
     (if truthy route_id then
        (case fleet_buses env of
           PDict bs \<Rightarrow>
             Inr (map fst (filter (\<lambda>(other_bus_id, b).
                                     \<not> py_eq (PStr other_bus_id) bus_id
                                     \<and> is_dict b
                                     \<and> py_eq (alist_get (dict_or_empty b) ''route_id'') route_id)
                                  bs))
         | _ \<Rightarrow> Inl AttributeError)
      else Inr [])"

definition alt_bus_text :: "env \<Rightarrow> string \<Rightarrow> pyval \<Rightarrow> pyval \<Rightarrow> string" where
  "alt_bus_text env alt_bus_id route_id stop_id =
     '' As an alternative, you could consider taking bus '' @ alt_bus_id @ '' on route ''
       @ fmt env route_id @ '', which may reach stop '' @ fmt env stop_id
       @ '' earlier depending on its schedule.''"

definition generic_alt_text :: "env \<Rightarrow> pyval \<Rightarrow> string" where
  "generic_alt_text env stop_id =
     '' Since the current ETA is more than 30 minutes, you may also consider a faster mode ''
       @ ''such as metro/rail or a cab for most of the journey, and then a short auto/taxi ride near stop ''
       @ fmt env stop_id @ ''.''"

definition alt_text :: "env \<Rightarrow> pyval \<Rightarrow> pyval \<Rightarrow> py_error + string" where
  "alt_text env bus_id stop_id =
     (case main_route_id env bus_id of
        Inl e \<Rightarrow> Inl e
      | Inr route_id \<Rightarrow>
         (case alt_buses env bus_id route_id of
            Inl e \<Rightarrow> Inl e
          | Inr [] \<Rightarrow> Inr (generic_alt_text env stop_id)
          | Inr (alt_bus_id # _) \<Rightarrow> Inr (alt_bus_text env alt_bus_id route_id stop_id)))"

text \<open>The base answer of the planner, with whitespace collapsed, or nothing.\<close>

definition friendly_base :: "pyval \<Rightarrow> string option" where
  "friendly_base base_answer =
     (case base_answer of
        PStr s \<Rightarrow> if py_strip s \<noteq> [] then Some (collapse_ws s) else None
      | _ \<Rightarrow> None)"

definition with_eta_sentence :: "string \<Rightarrow> string option \<Rightarrow> string" where
  "with_eta_sentence sentence friendly =
     (case friendly of
        None \<Rightarrow> sentence
      | Some f \<Rightarrow>
         if f = [] \<or> starts_with ''sorry'' (py_lower f) then sentence
         else sentence @ '' '' @ f)"

text \<open>The block under \<open>if eta_entry:\<close>: the answer so far, or unchanged.\<close>

definition enrich ::
  "env \<Rightarrow> pyval \<Rightarrow> pyval option \<Rightarrow> string option \<Rightarrow> py_error + string option" where
  "enrich env eta_entry gps_entry friendly =
     (let eta_res = entry_eta_res eta_entry;
          eta_sec = eta_value (PDict eta_res)
      in case entry_params eta_entry of
           Inl e \<Rightarrow> Inl e
         | Inr params \<Rightarrow>
            (let bus_id = sup_bus_id params gps_entry;
                 stop_id = sup_stop_id params eta_res;
                 eta_sec_int = (if eta_sec \<noteq> PNone
                                then (case py_int env eta_sec of Inl e \<Rightarrow> None | Inr n \<Rightarrow> Some n)
                                else None)
             in case eta_sec_int of
                  None \<Rightarrow> Inr friendly
                | Some n \<Rightarrow>
                   (let answer1 = with_eta_sentence (eta_sentence env bus_id stop_id n) friendly in
                    if 30 * 60 \<le> n then
                      (case alt_text env bus_id stop_id of
                         Inl e \<Rightarrow> Inl e
                       | Inr alt \<Rightarrow> Inr (Some (answer1 @ alt)))
                    else Inr (Some answer1))))"

definition sup_sorry :: string where
  "sup_sorry = ''Sorry, I could not answer your question.''"

definition finish_answer :: "string option \<Rightarrow> string" where
  "finish_answer friendly =
     collapse_ws (case friendly of None \<Rightarrow> sup_sorry | Some f \<Rightarrow> if f = [] then sup_sorry else f)"

definition supervise :: "env \<Rightarrow> (string \<times> pyval) list \<Rightarrow> py_error + sup_reply" where
  "supervise env result =
     (let tool_results = (case alist_get_default result ''tool_results'' (PList []) of
                            PList trs \<Rightarrow> trs | _ \<Rightarrow> [])
      in case ensure_tool_results tool_results of
           Inl e \<Rightarrow> Inl e
         | Inr _ \<Rightarrow>
            (let friendly = friendly_base (alist_get result ''answer'') in
             case select_entries tool_results (None, None) of
               Inl e \<Rightarrow> Inl e
             | Inr (eta_entry, gps_entry) \<Rightarrow>
                (case eta_entry of
                   None \<Rightarrow> Inr (SupAnswer (finish_answer friendly))
                 | Some entry \<Rightarrow>
                    if truthy entry then
                      (case enrich env entry gps_entry friendly of
                         Inl e \<Rightarrow> Inl e
                       | Inr f \<Rightarrow> Inr (SupAnswer (finish_answer f)))
                    else Inr (SupAnswer (finish_answer friendly)))))"

definition handle_body :: "env \<Rightarrow> pyval \<Rightarrow> py_error + sup_reply" where
  "handle_body env result =
     (if \<not> truthy result then Inr SupError
      else (case py_in ''error'' result of
              Inl e \<Rightarrow> Inl e
            | Inr True \<Rightarrow> Inr (SupPassthrough result)
            | Inr False \<Rightarrow>
               (case result of
                  PDict kvs \<Rightarrow> supervise env kvs
                | _ \<Rightarrow> Inl AttributeError)))"

text \<open>The \<open>try ... except Exception\<close> of \<open>handle_user_query\<close> returns an error dict.\<close>

definition handle_user_query :: "env \<Rightarrow> pyval \<Rightarrow> sup_reply" where
  "handle_user_query env planner_result =
     (case handle_body env planner_result of Inl e \<Rightarrow> SupError | Inr r \<Rightarrow> r)"

section \<open>Evaluation\<close>

text \<open>
  The real-analytic functions have no executable equations; concrete evaluations leave
  them folded and the trigonometric facts they need are proved by hand.
\<close>

declare py_sqrt_def [code del] py_asin_def [code del] py_atan2_def [code del]
  radians_def [code del] haversine_a_def [code del]

subsection \<open>A small deployment for the concrete evaluations\<close>

text \<open>
  Two buses on route R1, one stop S1 two thousandths of a degree east of the buses on
  the equator, no Redis, no language model, an index that returns no document, a
  position tool that knows no bus, and conversions that read decimal digits only.
\<close>

definition stop_lon :: real where
  "stop_lon = 2 / 1000"


definition demo_bus :: pyval where
  "demo_bus = PDict [(''route_id'', PStr ''R1''), (''lat'', PInt 0), (''lon'', PInt 0)]"

definition demo_stops :: pyval where
  "demo_stops =
     PList [PDict [(''stop_id'', PStr ''S1''), (''lat'', PInt 0), (''lon'', PFloat stop_lon)]]"

definition digits_value :: "string \<Rightarrow> nat" where
  "digits_value s = fold (\<lambda>c n. 10 * n + (code c - 48)) s 0"

definition demo_int_of_str :: "string \<Rightarrow> int option" where
  "demo_int_of_str s = (if s \<noteq> [] \<and> list_all is_digit s then Some (int (digits_value s)) else None)"

definition demo_env :: env where
  "demo_env =
     \<lparr> fleet_buses = PDict [(''B1'', demo_bus), (''B2'', demo_bus)],
       fleet_routes = PDict [(''R1'', PDict [(''stops'', demo_stops)])],
       routes_raw = PDict [(''R1'', PDict [(''stops'', demo_stops)])],
       redis_on = False,
       redis_store = (\<lambda>k. Miss),
       setex_ok = True,
       gps_lookup = (\<lambda>i b. None),
       weather_lookup = (\<lambda>i lat lon. Inr (PDict [(''condition'', PStr ''unknown''),
                                                   (''expected_delay_sec'', PInt 0)])),
       float_of_str = (\<lambda>s. map_option of_int (demo_int_of_str s)),
       int_of_str = demo_int_of_str,
       str_of = (\<lambda>v. ''?''),
       exc_text = (\<lambda>e. ''error''),
       retrieve_with_scores = (\<lambda>q. Inr []),
       retrieve_context = (\<lambda>q. []),
       rag_min_sim = 35 / 100,
       llm_on = False,
       llm_plan = (\<lambda>q c. PNone),
       llm_answer = (\<lambda>q c r. None) \<rparr>"

text \<open>An eta step for bus B1 and a given stop, as a planner emits it.\<close>

definition demo_eta_step :: "string \<Rightarrow> pyval" where
  "demo_eta_step stop =
     PDict [(''tool'', PStr ''eta''),
            (''params'', PDict [(''bus_id'', PStr ''B1''), (''stop_id'', PStr stop)])]"





text \<open>An engine whose trace holds one eta step with the given ETA, and a subscription of
  user U1 to bus B1 at stop S1 with a stored threshold.\<close>

definition engine_with_eta :: "int \<Rightarrow> string \<Rightarrow> py_error + pyval" where
  "engine_with_eta eta q =
     Inr (PDict [(''answer'', PStr ''ok''),
                 (''tool_results'',
                    PList [trace_entry (demo_eta_step ''S1'')
                             (PDict [(''eta_sec'', PInt eta), (''stop_id'', PStr ''S1'')])]),
                 (''context'', PList [])])"

definition demo_sub :: "pyval \<Rightarrow> subscription" where
  "demo_sub threshold =
     SubObject [(''user_id'', PStr ''U1''), (''bus_id'', PStr ''B1''), (''stop_id'', PStr ''S1''),
                (''notify_before_sec'', threshold), (''channel'', PStr ''console'')]"

text \<open>A result of the planner whose trace holds eta steps for bus B1 with the given stops
  and ETAs, in that order.\<close>

definition eta_entry_for :: "string \<times> int \<Rightarrow> pyval" where
  "eta_entry_for se =
     trace_entry (demo_eta_step (fst se))
       (PDict [(''eta_sec'', PInt (snd se)), (''stop_id'', PStr (fst se))])"

definition planner_result :: "(string \<times> int) list \<Rightarrow> pyval" where
  "planner_result etas =
     PDict [(''answer'', PStr ''The bus is on its way.''),
            (''tool_results'', PList (map eta_entry_for etas)),
            (''context'', PList [])]"

section \<open>Reading a trace\<close>

text \<open>The plan step an entry of the trace records, and what one iteration of the loop does
  to the trace before the append at the end of the loop body.\<close>

definition entry_step :: "pyval \<Rightarrow> pyval" where
  "entry_step tr = (case tr of PDict kvs \<Rightarrow> alist_get kvs ''step'' | _ \<Rightarrow> PNone)"

definition appends_once :: "pyval \<Rightarrow> exec_state \<Rightarrow> outcome \<Rightarrow> bool" where
  "appends_once step st out =
     (case out of
        Raise e st' \<Rightarrow> tool_results st' = tool_results st
      | Continue st' \<Rightarrow> (\<exists>r. tool_results st' = tool_results st @ [trace_entry step r])
      | Normal r st' \<Rightarrow> tool_results st' = tool_results st)"




text \<open>The results a run has recorded, in order.\<close>

definition entry_result :: "pyval \<Rightarrow> pyval" where
  "entry_result tr = (case tr of PDict kvs \<Rightarrow> alist_get kvs ''result'' | _ \<Rightarrow> PNone)"



text \<open>What the supervisor keeps of the planner's answer behind its own ETA sentence, and
  the entries of a trace that it takes for an eta step with an ETA.\<close>

definition kept_base :: "string option \<Rightarrow> string" where
  "kept_base friendly =
     (case friendly of
        None \<Rightarrow> []
      | Some f \<Rightarrow> if starts_with ''sorry'' (py_lower f) then [] else f)"

definition is_eta_entry :: "pyval \<Rightarrow> bool" where
  "is_eta_entry tr =
     (case tr of
        PDict kvs \<Rightarrow>
          (let step = py_or (alist_get kvs ''step'') (PDict []); res = alist_get kvs ''result'' in
           is_dict step \<and> tool_lower step = Inr ''eta'' \<and> is_dict res
             \<and> (has_key res ''eta_sec'' \<or> has_key res ''eta''))
      | _ \<Rightarrow> False)"

section \<open>Properties of the ETA calculator\<close>

lemma trunc_nonneg: "0 \<le> x \<Longrightarrow> 0 \<le> trunc x"
  by (simp add: trunc_def)

lemma haversine_meters_nonneg:
  assumes "haversine_meters lat1 lon1 lat2 lon2 = Inr d"
  shows "0 \<le> d"
proof -
  from assms obtain a1 o1 a2 o2 r t where
    r: "py_sqrt (haversine_a a1 o1 a2 o2) = Inr r" and
    t: "py_asin r = Inr t" and d: "d = 2 * 6371000 * t"
    by (auto simp: haversine_meters_def split: option.splits sum.splits)
  from r have "0 \<le> r"
    by (auto simp: py_sqrt_def split: if_splits)
  moreover from t have "r \<le> 1" and "t = arcsin r"
    by (auto simp: py_asin_def split: if_splits)
  ultimately have "0 \<le> t"
    using arcsin_nonneg [of r] by simp
  with d show ?thesis by simp
qed

lemma speed_floor_positive: "0 < max (sp * 1000 / 3600) (1 / 10 :: real)"
  by simp

lemma calculate_eta_value:
  assumes "haversine_meters lat1 lon1 lat2 lon2 = Inr d"
      and "num_of speed = Some sp" and "num_of tm = Some m"
  shows "calculate_eta_body lat1 lon1 lat2 lon2 speed tm
           = Inr (trunc (d / max (sp * 1000 / 3600) (1 / 10) * m))"
proof -
  have "max (sp * 1000 / 3600) (1 / 10) \<noteq> 0"
    using speed_floor_positive [of sp] by simp
  then show ?thesis
    using assms by (simp add: calculate_eta_body_def py_div_def Let_def)
qed

lemma calculate_eta_body_cases:
  assumes "calculate_eta_body lat1 lon1 lat2 lon2 speed tm = Inr n"
  obtains d sp m where "haversine_meters lat1 lon1 lat2 lon2 = Inr d"
    and "num_of speed = Some sp" and "num_of tm = Some m"
    and "n = trunc (d / max (sp * 1000 / 3600) (1 / 10) * m)"
  using assms
  by (auto simp: calculate_eta_body_def py_div_def Let_def
           split: sum.splits option.splits if_splits)

section \<open>The fallback planner\<close>



section \<open>The guardrails of \<open>ask\<close>\<close>

lemma ask_body_past_domain:
  assumes "py_strip user_query \<noteq> []" and "is_transport_query (py_strip user_query)"
  shows "ask_body env user_query =
           (case validate_referenced_entities env (py_strip user_query) of
              Some r \<Rightarrow> if r \<noteq> [] then Inr (abstain r)
                        else relevance_and_rest env user_query (py_strip user_query)
            | None \<Rightarrow> relevance_and_rest env user_query (py_strip user_query))"
  using assms by (simp add: ask_body_def Let_def)

text \<open>
  Claim C6, as stated, fails: the keyword list of the code also holds "station" (and
  "buses"). The query "nearest station" contains none of the eleven keywords of the
  claim and no identifier, yet it passes the domain filter and \<open>ask\<close> does not answer
  with the out-of-domain message.
\<close>

theorem domain_filter_station_counterexample:
  "py_strip ''nearest station'' \<noteq> []
   \<and> \<not> any_in [''bus'', ''route'', ''stop'', ''eta'', ''when'', ''arrive'', ''reach'', ''delay'',
                ''traffic'', ''driver'', ''location'']
          (py_lower (py_strip ''nearest station''))
   \<and> search_id CHR ''B'' (py_strip ''nearest station'') = None
   \<and> search_id CHR ''R'' (py_strip ''nearest station'') = None
   \<and> search_id CHR ''S'' (py_strip ''nearest station'') = None
   \<and> is_transport_query (py_strip ''nearest station'')
   \<and> ask demo_env ''nearest station'' \<noteq> abstain out_of_domain_msg"
  by code_simp

text \<open>
  Claim C6, amended: with the keyword list of the code (bus, buses, route, stop, station,
  eta, when, arrive, reach, delay, traffic, driver, location), every non-blank query
  whose stripped text contains no keyword and no identifier B, R or S followed by digits
  gets the out-of-domain answer with empty trace and context, and every query that
  contains a keyword or such an identifier passes the domain filter.
\<close>

theorem domain_filter_code_keywords:
  "(py_strip user_query \<noteq> []
      \<and> \<not> any_in transport_keywords (py_lower (py_strip user_query))
      \<and> search_id CHR ''B'' (py_strip user_query) = None
      \<and> search_id CHR ''R'' (py_strip user_query) = None
      \<and> search_id CHR ''S'' (py_strip user_query) = None
    \<longrightarrow> ask env user_query = abstain out_of_domain_msg)
   \<and> (any_in transport_keywords (py_lower query)
        \<or> search_id CHR ''B'' query \<noteq> None \<or> search_id CHR ''R'' query \<noteq> None
        \<or> search_id CHR ''S'' query \<noteq> None
    \<longrightarrow> is_transport_query query)"
  by (simp add: ask_def ask_body_def Let_def is_transport_query_def)

theorem domain_filter_code_keywords_witness:
  "ask demo_env ''Who is the president of India?''
     = \<lparr> answer = out_of_domain_msg, trace = [], context_docs = [] \<rparr>
   \<and> is_transport_query ''nearest station''
   \<and> is_transport_query ''s12''"
proof -
  let ?q = "''Who is the president of India?''"
  have h: "py_strip ?q \<noteq> []
      \<and> \<not> any_in transport_keywords (py_lower (py_strip ?q))
      \<and> search_id CHR ''B'' (py_strip ?q) = None
      \<and> search_id CHR ''R'' (py_strip ?q) = None
      \<and> search_id CHR ''S'' (py_strip ?q) = None"
    by code_simp
  have k: "any_in transport_keywords (py_lower ''nearest station'')"
    by code_simp
  have i: "search_id CHR ''S'' ''s12'' \<noteq> None"
    by code_simp
  from domain_filter_code_keywords [of ?q demo_env] h
  have "ask demo_env ?q = abstain out_of_domain_msg" by blast
  moreover from domain_filter_code_keywords [of _ _ "''nearest station''"] k
  have "is_transport_query ''nearest station''" by blast
  moreover from domain_filter_code_keywords [of _ _ "''s12''"] i
  have "is_transport_query ''s12''" by blast
  ultimately show ?thesis by (simp add: abstain_def)
qed

lemma first_missing_dict:
  "first_missing (PDict bs) xs = Inr (find (\<lambda>b. b \<notin> set (map fst bs)) xs)"
  by (induction xs) (simp_all add: py_in_def)

lemma find_in_sorted_ids:
  assumes "find P (sorted_ids L q) = Some b"
  shows "b \<in> set (map py_upper (finditer_ids L q))" and "finditer_ids L q \<noteq> []"
proof -
  from assms have "b \<in> set (sorted_ids L q)"
    by (auto simp: find_Some_iff)
  then show "b \<in> set (map py_upper (finditer_ids L q))"
    by (simp add: sorted_ids_def)
  then show "finditer_ids L q \<noteq> []" by auto
qed

lemma bus_id_imp_transport:
  assumes "finditer_ids CHR ''B'' q \<noteq> []"
  shows "is_transport_query q" and "q \<noteq> []"
proof -
  from assms have "search_id CHR ''B'' q \<noteq> None"
    by (simp add: search_id_def split: list.splits)
  then show "is_transport_query q" by (simp add: is_transport_query_def)
  from assms show "q \<noteq> []" by (auto simp: finditer_ids_def)
qed

text \<open>
  Claim C5, as stated, fails when a query mentions two bus identifiers that are both
  unknown: the validation returns at the first one in sorted order, so the answer names
  B998 and does not name B999, which the query mentions and the registry lacks too.
\<close>

theorem unknown_bus_two_ids_counterexample:
  "py_strip ''Where are B999 and B998?'' \<noteq> []
   \<and> is_transport_query (py_strip ''Where are B999 and B998?'')
   \<and> ''B999'' \<in> set (map py_upper (finditer_ids CHR ''B'' (py_strip ''Where are B999 and B998?'')))
   \<and> py_in ''B999'' (fleet_buses demo_env) = Inr False
   \<and> ask demo_env ''Where are B999 and B998?'' = abstain (bus_missing_msg ''B998'')
   \<and> \<not> contains ''B999'' (answer (ask demo_env ''Where are B999 and B998?''))"
  by code_simp

text \<open>
  Claim C5, amended: when the fleet registry is a dict and the stripped query mentions a
  bus identifier (B followed by digits, any case, between word boundaries) whose
  upper-cased form is not a key of the registry, \<open>ask\<close> abstains with the message naming
  the first such identifier in sorted order (the identifier itself when it is the only
  unknown one), with empty trace and context. And the validation never raises: when its
  body fails, it reports no violation and the request goes on to the relevance check.
\<close>

theorem unknown_bus_abstains:
  "(fleet_buses env = PDict bs
      \<and> find (\<lambda>b. b \<notin> set (map fst bs)) (sorted_ids CHR ''B'' (py_strip user_query)) = Some bus_id
    \<longrightarrow> ask env user_query
          = \<lparr> answer = bus_missing_msg bus_id, trace = [], context_docs = [] \<rparr>
        \<and> bus_id \<in> set (map py_upper (finditer_ids CHR ''B'' (py_strip user_query)))
        \<and> bus_id \<notin> set (map fst bs))
   \<and> (py_strip user_query \<noteq> [] \<and> is_transport_query (py_strip user_query)
        \<and> validate_body env (py_strip user_query) = Inl e
    \<longrightarrow> validate_referenced_entities env (py_strip user_query) = None
        \<and> ask_body env user_query = relevance_and_rest env user_query (py_strip user_query))"
proof (intro conjI impI)
  assume a: "fleet_buses env = PDict bs
      \<and> find (\<lambda>b. b \<notin> set (map fst bs)) (sorted_ids CHR ''B'' (py_strip user_query)) = Some bus_id"
  let ?q = "py_strip user_query"
  from a have f: "find (\<lambda>b. b \<notin> set (map fst bs)) (sorted_ids CHR ''B'' ?q) = Some bus_id"
    and reg: "fleet_buses env = PDict bs" by simp_all
  from f show "bus_id \<in> set (map py_upper (finditer_ids CHR ''B'' ?q))"
    by (rule find_in_sorted_ids)
  from f show "bus_id \<notin> set (map fst bs)"
    by (auto simp: find_Some_iff)
  from f have ne: "finditer_ids CHR ''B'' ?q \<noteq> []" by (rule find_in_sorted_ids)
  then have dom: "is_transport_query ?q" and nb: "?q \<noteq> []"
    by (rule bus_id_imp_transport)+
  have "validate_body env ?q = Inr (Some (bus_missing_msg bus_id))"
    using f reg by (simp add: validate_body_def extract_entities_def first_missing_dict)
  then have "validate_referenced_entities env ?q = Some (bus_missing_msg bus_id)"
    by (simp add: validate_referenced_entities_def)
  then have "ask_body env user_query = Inr (abstain (bus_missing_msg bus_id))"
    using ask_body_past_domain [OF nb dom, of env] by (simp add: bus_missing_msg_def)
  then show "ask env user_query
          = \<lparr> answer = bus_missing_msg bus_id, trace = [], context_docs = [] \<rparr>"
    by (simp add: ask_def abstain_def)
next
  assume b: "py_strip user_query \<noteq> [] \<and> is_transport_query (py_strip user_query)
        \<and> validate_body env (py_strip user_query) = Inl e"
  then show v: "validate_referenced_entities env (py_strip user_query) = None"
    by (simp add: validate_referenced_entities_def)
  from b v show "ask_body env user_query = relevance_and_rest env user_query (py_strip user_query)"
    using ask_body_past_domain [of user_query env] by simp
qed

theorem unknown_bus_abstains_witness:
  "ask demo_env ''Where is B999?''
     = \<lparr> answer = bus_missing_msg ''B999'', trace = [], context_docs = [] \<rparr>
   \<and> validate_referenced_entities (demo_env\<lparr>fleet_buses := PNone\<rparr>) (py_strip ''Where is B1?'')
       = None
   \<and> ask_body (demo_env\<lparr>fleet_buses := PNone\<rparr>) ''Where is B1?''
       = relevance_and_rest (demo_env\<lparr>fleet_buses := PNone\<rparr>) ''Where is B1?''
           (py_strip ''Where is B1?'')"
proof -
  let ?bs = "[(''B1'', demo_bus), (''B2'', demo_bus)]"
  let ?broken = "demo_env\<lparr>fleet_buses := PNone\<rparr>"
  have h1: "fleet_buses demo_env = PDict ?bs
      \<and> find (\<lambda>b. b \<notin> set (map fst ?bs)) (sorted_ids CHR ''B'' (py_strip ''Where is B999?''))
          = Some ''B999''"
    by code_simp
  have h2: "py_strip ''Where is B1?'' \<noteq> [] \<and> is_transport_query (py_strip ''Where is B1?'')
        \<and> validate_body ?broken (py_strip ''Where is B1?'') = Inl TypeError"
    by code_simp
  from unknown_bus_abstains [of demo_env ?bs "''Where is B999?''" "''B999''"] h1
  have "ask demo_env ''Where is B999?''
     = \<lparr> answer = bus_missing_msg ''B999'', trace = [], context_docs = [] \<rparr>"
    by blast
  moreover from unknown_bus_abstains [of ?broken _ "''Where is B1?''" _ TypeError] h2
  have "validate_referenced_entities ?broken (py_strip ''Where is B1?'') = None
   \<and> ask_body ?broken ''Where is B1?''
       = relevance_and_rest ?broken ''Where is B1?'' (py_strip ''Where is B1?'')"
    by blast
  ultimately show ?thesis by blast
qed

section \<open>The trace of an executed plan\<close>

lemma entry_step_trace_entry [simp]: "entry_step (trace_entry step r) = step"
  by (simp add: entry_step_def trace_entry_def alist_get_def)

lemma tool_results_cache_store [simp]:
  "tool_results (cache_store env k r st) = tool_results st"
  by (simp add: cache_store_def split: option.splits)

lemma gps_step_appends: "appends_once step st (gps_step env uq i params st)"
  by (simp add: gps_step_def appends_once_def Let_def)

lemma weather_fetch_appends: "appends_once step st (weather_fetch env i lat lon k st)"
  by (simp add: weather_fetch_def appends_once_def Let_def split: sum.splits)

lemma weather_step_appends: "appends_once step st (weather_step env i params step st)"
  using weather_fetch_appends [of step st env i]
  by (auto simp: weather_step_def appends_once_def append_result_def Let_def
           split: prod.splits sum.splits option.splits)

lemma eta_step_appends: "appends_once step st (eta_step env uq ctx i params step st)"
  by (auto simp: eta_step_def appends_once_def append_result_def Let_def
           split: prod.splits sum.splits option.splits)

lemma step_body_appends: "appends_once step st (step_body env uq ctx i t params step st)"
  using gps_step_appends weather_step_appends eta_step_appends
  by (simp add: step_body_def) (simp add: appends_once_def)

lemma run_step_dict:
  "\<exists>st' r. run_step env uq ctx i (PDict kvs) st = Inr st'
      \<and> tool_results st' = tool_results st @ [trace_entry (PDict kvs) r]"
  using step_body_appends [of "PDict kvs" st env uq ctx i "alist_get kvs ''tool''" "step_params kvs"]
  by (auto simp: run_step_def appends_once_def append_result_def Let_def split: outcome.splits)

lemma run_step_Inr:
  assumes "run_step env uq ctx i step st = Inr st'"
  shows "\<exists>r. tool_results st' = tool_results st @ [trace_entry step r]"
proof (cases step)
  case (PDict kvs)
  with assms run_step_dict [of env uq ctx i kvs st] show ?thesis by auto
qed (use assms in \<open>simp_all add: run_step_def\<close>)

lemma run_plan_steps:
  "run_plan env uq ctx i plan st = Inr st'
     \<Longrightarrow> map entry_step (tool_results st') = map entry_step (tool_results st) @ plan"
proof (induction plan arbitrary: i st)
  case Nil
  then show ?case by simp
next
  case (Cons step rest)
  from Cons.prems obtain st1 where s1: "run_step env uq ctx i step st = Inr st1"
    and r: "run_plan env uq ctx (Suc i) rest st1 = Inr st'"
    by (auto split: sum.splits)
  from run_step_Inr [OF s1] obtain r0 where
    "tool_results st1 = tool_results st @ [trace_entry step r0]" by blast
  with Cons.IH [OF r] show ?case by simp
qed

lemma run_plan_total:
  "\<forall>s \<in> set plan. is_dict s \<Longrightarrow> \<exists>st'. run_plan env uq ctx i plan st = Inr st'"
proof (induction plan arbitrary: i st)
  case Nil
  then show ?case by simp
next
  case (Cons step rest)
  then obtain kvs where k: "step = PDict kvs"
    by (cases step) (auto simp: is_dict_def)
  from run_step_dict [of env uq ctx i kvs st] obtain st1 where
    "run_step env uq ctx i step st = Inr st1" using k by blast
  moreover from Cons have "\<exists>st'. run_plan env uq ctx (Suc i) rest st1 = Inr st'" by simp
  ultimately show ?case by auto
qed

text \<open>
  Claim C9. For every plan whose steps are dicts, the loop of \<open>ask\<close> runs to its end and
  leaves a trace with exactly one entry for each step, in plan order, each entry holding
  its step; cached weather and ETA results (the \<open>continue\<close> paths), failing tools and
  steps that raise are all covered, since every path of a step appends once. Hence the
  trace of every reply that \<open>ask\<close> composes from an executed plan has the steps of
  that plan.
\<close>

theorem trace_follows_plan:
  "((\<forall>s \<in> set plan. is_dict s)
      \<longrightarrow> (\<exists>st'. run_plan env user_query ctx 0 plan (init_state env) = Inr st'
              \<and> length (tool_results st') = length plan
              \<and> map entry_step (tool_results st') = plan))
   \<and> (py_iter (choose_plan env user_query query ctx) = Inr steps
        \<and> plan_and_execute env user_query query ctx = Inr r
      \<longrightarrow> length (trace r) = length steps \<and> map entry_step (trace r) = steps)"
proof (intro conjI impI)
  assume d: "\<forall>s \<in> set plan. is_dict s"
  from run_plan_total [OF d] obtain st' where
    s: "run_plan env user_query ctx 0 plan (init_state env) = Inr st'" by blast
  from run_plan_steps [OF s] have m: "map entry_step (tool_results st') = plan"
    by (simp add: init_state_def)
  then have "length (tool_results st') = length plan"
    by (metis length_map)
  with s m show "\<exists>st'. run_plan env user_query ctx 0 plan (init_state env) = Inr st'
              \<and> length (tool_results st') = length plan
              \<and> map entry_step (tool_results st') = plan" by blast
next
  assume a: "py_iter (choose_plan env user_query query ctx) = Inr steps
        \<and> plan_and_execute env user_query query ctx = Inr r"
  then obtain st' where s: "run_plan env user_query ctx 0 steps (init_state env) = Inr st'"
    and t: "trace r = tool_results st'"
    by (auto simp: plan_and_execute_def split: sum.splits)
  from run_plan_steps [OF s] t show m: "map entry_step (trace r) = steps"
    by (simp add: init_state_def)
  then show "length (trace r) = length steps" by (metis length_map)
qed

theorem trace_follows_plan_witness:
  "(\<exists>st'. run_plan demo_env ''When will B1 reach S1?'' [] 0
            (fallback_plan ''When will B1 reach S1?'') (init_state demo_env) = Inr st'
         \<and> length (tool_results st') = 3
         \<and> map entry_step (tool_results st') = fallback_plan ''When will B1 reach S1?'')
   \<and> (\<exists>r. plan_and_execute demo_env ''When will B1 reach S1?'' ''When will B1 reach S1?'' []
               = Inr r
         \<and> map entry_step (trace r) = fallback_plan ''When will B1 reach S1?'')"
proof -
  let ?q = "''When will B1 reach S1?''"
  have d: "\<forall>s \<in> set (fallback_plan ?q). is_dict s"
    by code_simp
  have l: "length (fallback_plan ?q) = 3"
    by code_simp
  have p: "py_iter (choose_plan demo_env ?q ?q []) = Inr (fallback_plan ?q)"
    by (simp add: choose_plan_def demo_env_def py_iter_def)
  have "\<not> isl (plan_and_execute demo_env ?q ?q [])"
    by code_simp
  then obtain r where r: "plan_and_execute demo_env ?q ?q [] = Inr r"
    by (cases "plan_and_execute demo_env ?q ?q []") auto
  from trace_follows_plan [of "fallback_plan ?q" demo_env ?q "[]"] d l
  have "\<exists>st'. run_plan demo_env ?q [] 0 (fallback_plan ?q) (init_state demo_env) = Inr st'
         \<and> length (tool_results st') = 3
         \<and> map entry_step (tool_results st') = fallback_plan ?q"
    by auto
  moreover from trace_follows_plan [of _ demo_env ?q "[]" ?q "fallback_plan ?q" r] p r
  have "map entry_step (trace r) = fallback_plan ?q"
    by blast
  ultimately show ?thesis using r by blast
qed

section \<open>The eta step\<close>

subsection \<open>The two distance formulas agree\<close>



lemma atan2_sqrt_arcsin:
  assumes "0 \<le> a" and "a \<le> 1"
  shows "py_atan2 (sqrt a) (sqrt (1 - a)) = arcsin (sqrt a)"
proof (cases "a = 1")
  case True
  then show ?thesis by (simp add: py_atan2_def)
next
  case False
  with assms have lt: "a < 1" by simp
  then have pos: "0 < sqrt (1 - a)" by simp
  have s0: "0 \<le> sqrt a" using assms by simp
  have s1: "sqrt a < 1" using lt assms by (simp add: real_sqrt_lt_1_iff)
  let ?t = "arcsin (sqrt a)"
  have b: "- (pi / 2) < ?t \<and> ?t < pi / 2"
    using s0 s1 by (intro arcsin_lt_bounded) linarith+
  have r: "- 1 \<le> sqrt a" "sqrt a \<le> 1" using s0 s1 by linarith+
  have sn: "sin ?t = sqrt a" using r by (rule sin_arcsin)
  have "cos ?t = sqrt (1 - (sqrt a)\<^sup>2)" using r by (rule cos_arcsin)
  then have cs: "cos ?t = sqrt (1 - a)" using assms by simp
  have "tan ?t = sqrt a / sqrt (1 - a)"
    by (simp add: tan_def sn cs)
  then have "arctan (sqrt a / sqrt (1 - a)) = ?t"
    using arctan_tan [of ?t] b by simp
  with pos show ?thesis by (simp add: py_atan2_def)
qed

lemma haversine_meters_of_km:
  assumes "haversine_km lat1 lon1 lat2 lon2 = Inr d"
  shows "haversine_meters lat1 lon1 lat2 lon2 = Inr (1000 * d)" and "0 \<le> d"
proof -
  from assms obtain a1 o1 a2 o2 where n: "num_of lat1 = Some a1" "num_of lon1 = Some o1"
      "num_of lat2 = Some a2" "num_of lon2 = Some o2"
    by (auto simp: haversine_km_def split: option.splits)
  let ?a = "haversine_a a1 o1 a2 o2"
  from assms n have a0: "0 \<le> ?a" and a1: "?a \<le> 1"
    and d: "d = 6371 * (2 * py_atan2 (sqrt ?a) (sqrt (1 - ?a)))"
    by (auto simp: haversine_km_def py_sqrt_def Let_def split: if_splits)
  have at: "py_atan2 (sqrt ?a) (sqrt (1 - ?a)) = arcsin (sqrt ?a)"
    using a0 a1 by (rule atan2_sqrt_arcsin)
  have le: "sqrt ?a \<le> 1" using a1 by simp
  have ge: "0 \<le> sqrt ?a" using a0 by simp
  then have ge': "\<not> sqrt ?a < - 1" by linarith
  show "haversine_meters lat1 lon1 lat2 lon2 = Inr (1000 * d)"
    using n a0 le ge' by (simp add: haversine_meters_def py_sqrt_def py_asin_def d at)
  have "0 \<le> arcsin (sqrt ?a)" using ge le by (intro arcsin_nonneg) simp
  then show "0 \<le> d" by (simp add: d at)
qed






subsection \<open>When the step falls back\<close>



lemma truthy_eta_stop_id: "truthy (eta_stop_id params)"
  by (simp add: eta_stop_id_def py_or_def)






subsection \<open>Distances of the small deployment\<close>



lemma haversine_km_equator:
  assumes "0 \<le> x" and "x < 180"
  shows "haversine_km (PInt 0) (PInt 0) (PInt 0) (PFloat x) = Inr (6371 * radians x)"
proof -
  let ?h = "radians x / 2"
  define A where "A = (sin ?h)\<^sup>2"
  have h0: "0 \<le> ?h" using assms by (simp add: radians_def)
  have h1: "?h < pi / 2"
  proof -
    have "x * pi < 180 * pi" using assms pi_gt_zero by simp
    then show ?thesis by (simp add: radians_def)
  qed
  have a: "haversine_a 0 0 0 x = A"
    by (simp add: haversine_a_def radians_def A_def)
  have s: "0 \<le> sin ?h" using h0 h1 pi_gt_zero by (intro sin_ge_zero) linarith+
  have a0: "0 \<le> A" and a1: "A \<le> 1"
    by (simp_all add: A_def abs_square_le_1 abs_sin_le_one)
  have "py_atan2 (sqrt A) (sqrt (1 - A)) = arcsin (sqrt A)"
    using a0 a1 by (rule atan2_sqrt_arcsin)
  also have "\<dots> = arcsin (sin ?h)" using s by (simp add: A_def)
  also have "\<dots> = ?h" using h0 h1 by (intro arcsin_sin) linarith+
  finally have at: "py_atan2 (sqrt A) (sqrt (1 - A)) = ?h" .
  show ?thesis
    using a0 a1 by (simp add: haversine_km_def num_of_def a py_sqrt_def Let_def at)
qed

lemma stop_222m:
  "haversine_km (PInt 0) (PInt 0) (PInt 0) (PFloat stop_lon) = Inr (6371 * pi / 90000)"
  using haversine_km_equator [of stop_lon] by (simp add: radians_def stop_lon_def)


subsection \<open>The computed branch\<close>


lemma entry_result_trace_entry [simp]: "entry_result (trace_entry step r) = r"
  by (simp add: entry_result_def trace_entry_def alist_get_def)








section \<open>The claim about the ETA calculator\<close>

lemma stop_222m_meters:
  "haversine_meters (PInt 0) (PInt 0) (PInt 0) (PFloat stop_lon) = Inr (1000 * (6371 * pi / 90000))"
  using stop_222m by (rule haversine_meters_of_km(1))

text \<open>
  Claim C10, as stated, fails for a negative traffic multiplier, which the public
  interface accepts: the product \<open>base_seconds * traffic_multiplier\<close> is negative and
  \<open>int\<close> keeps its sign. For a stop about 222 metres from the bus, at 25 km/h and with
  the multiplier \<open>-1.0\<close>, the function returns a negative number (about -32).
\<close>

theorem negative_multiplier_counterexample:
  "calculate_eta_body (PInt 0) (PInt 0) (PInt 0) (PFloat stop_lon) (PFloat 25) (PFloat (- 1))
     = Inr (calculate_eta_seconds (PInt 0) (PInt 0) (PInt 0) (PFloat stop_lon) (PFloat 25)
              (PFloat (- 1)))
   \<and> calculate_eta_seconds (PInt 0) (PInt 0) (PInt 0) (PFloat stop_lon) (PFloat 25) (PFloat (- 1))
       \<le> - 20"
proof -
  have b: "calculate_eta_body (PInt 0) (PInt 0) (PInt 0) (PFloat stop_lon) (PFloat 25) (PFloat (- 1))
             = Inr (trunc (1000 * (6371 * pi / 90000) / max (25 * 1000 / 3600) (1 / 10) * (- 1)))"
    by (rule calculate_eta_value [OF stop_222m_meters]) (simp_all add: num_of_def)
  have q: "1000 * (6371 * pi / 90000) / max (25 * 1000 / 3600) (1 / 10) * (- 1 :: real)
             = - (6371 * pi / 625)" by simp
  have "6371 * pi / 625 \<ge> 20" using pi_ge_two by simp
  then have "\<lceil>- (6371 * pi / 625)\<rceil> \<le> - 20" by (simp add: ceiling_le_iff)
  moreover have "(0::real) < 6371 * pi / 625" by simp
  then have "\<not> 0 \<le> - (6371 * pi / 625)" by linarith
  ultimately have "trunc (- (6371 * pi / 625)) \<le> - 20" by (simp add: trunc_def)
  with b show ?thesis by (simp only: q calculate_eta_seconds_def sum.case)
qed

text \<open>
  Claim C10, amended: \<open>calculate_eta_seconds\<close> is total at its public interface. For all
  coordinates and every speed (zero and negative included, and non-numeric arguments as
  well) and every traffic multiplier that is not negative, the value returned is a
  non-negative integer. For every traffic multiplier, the division never fails, since
  the divisor is at least 0.1 m/s, and a call with an argument that is not a number,
  whose body raises, returns the sentinel 9999.
\<close>

theorem calculate_eta_seconds_total_nonneg:
  "((\<forall>m. num_of tm = Some m \<longrightarrow> 0 \<le> m)
      \<longrightarrow> 0 \<le> calculate_eta_seconds lat1 lon1 lat2 lon2 speed tm)
   \<and> calculate_eta_body lat1 lon1 lat2 lon2 speed tm \<noteq> Inl ZeroDivisionError
   \<and> (num_of lat1 = None \<or> num_of lon1 = None \<or> num_of lat2 = None \<or> num_of lon2 = None
         \<or> num_of speed = None \<or> num_of tm = None
       \<longrightarrow> (\<exists>e. calculate_eta_body lat1 lon1 lat2 lon2 speed tm = Inl e)
           \<and> calculate_eta_seconds lat1 lon1 lat2 lon2 speed tm = 9999)"
proof (intro conjI impI)
  assume mult: "\<forall>m. num_of tm = Some m \<longrightarrow> 0 \<le> m"
  show "0 \<le> calculate_eta_seconds lat1 lon1 lat2 lon2 speed tm"
  proof (cases "calculate_eta_body lat1 lon1 lat2 lon2 speed tm")
    case (Inl e)
    then show ?thesis by (simp add: calculate_eta_seconds_def)
  next
    case (Inr n)
    then obtain d sp m where d: "haversine_meters lat1 lon1 lat2 lon2 = Inr d"
      and m: "num_of tm = Some m"
      and n: "n = trunc (d / max (sp * 1000 / 3600) (1 / 10) * m)"
      by (rule calculate_eta_body_cases)
    have "0 \<le> d" using d by (rule haversine_meters_nonneg)
    moreover have "0 \<le> m" using mult m by simp
    ultimately have "0 \<le> d / max (sp * 1000 / 3600) (1 / 10) * m"
      using speed_floor_positive [of sp] by simp
    then have "0 \<le> n" unfolding n by (rule trunc_nonneg)
    with Inr show ?thesis by (simp add: calculate_eta_seconds_def)
  qed
next
  show "calculate_eta_body lat1 lon1 lat2 lon2 speed tm \<noteq> Inl ZeroDivisionError"
    by (auto simp: calculate_eta_body_def py_div_def py_sqrt_def py_asin_def
                   haversine_meters_def Let_def
             split: sum.splits option.splits if_splits)
next
  assume non: "num_of lat1 = None \<or> num_of lon1 = None \<or> num_of lat2 = None \<or> num_of lon2 = None
         \<or> num_of speed = None \<or> num_of tm = None"
  have "\<exists>e. calculate_eta_body lat1 lon1 lat2 lon2 speed tm = Inl e"
  proof (cases "calculate_eta_body lat1 lon1 lat2 lon2 speed tm")
    case (Inl e)
    then show ?thesis by blast
  next
    case (Inr n)
    then obtain d sp m where d: "haversine_meters lat1 lon1 lat2 lon2 = Inr d"
      and "num_of speed = Some sp" and "num_of tm = Some m"
      by (rule calculate_eta_body_cases)
    moreover from d have "num_of lat1 \<noteq> None \<and> num_of lon1 \<noteq> None \<and> num_of lat2 \<noteq> None
        \<and> num_of lon2 \<noteq> None"
      by (auto simp: haversine_meters_def split: option.splits)
    ultimately show ?thesis using non by auto
  qed
  then show "\<exists>e. calculate_eta_body lat1 lon1 lat2 lon2 speed tm = Inl e"
    and "calculate_eta_seconds lat1 lon1 lat2 lon2 speed tm = 9999"
    by (auto simp: calculate_eta_seconds_def)
qed

text \<open>
  The same stop with a speed of zero, with a negative speed, and with no speed at all:
  the first two are floored at 0.1 m/s and give the same positive ETA, twice the
  seconds of 222 metres at 0.1 m/s when the multiplier is 2; the last gives 9999.
\<close>

theorem calculate_eta_seconds_total_nonneg_witness:
  "0 \<le> calculate_eta_seconds (PInt 0) (PInt 0) (PInt 0) (PFloat stop_lon) (PInt 0) (PFloat 2)
   \<and> calculate_eta_body (PInt 0) (PInt 0) (PInt 0) (PFloat stop_lon) (PInt 0) (PFloat 2)
       = Inr (trunc (12742 * pi / 9))
   \<and> 2831 \<le> trunc (12742 * pi / 9)
   \<and> 0 \<le> calculate_eta_seconds (PInt 0) (PInt 0) (PInt 0) (PFloat stop_lon) (PFloat (- 5)) (PFloat 2)
   \<and> calculate_eta_body (PInt 0) (PInt 0) (PInt 0) (PFloat stop_lon) (PFloat (- 5)) (PFloat 2)
       = Inr (trunc (12742 * pi / 9))
   \<and> calculate_eta_body (PInt 0) (PInt 0) (PInt 0) (PFloat stop_lon) (PInt 0) (PFloat 2)
       \<noteq> Inl ZeroDivisionError
   \<and> calculate_eta_seconds (PInt 0) (PInt 0) (PInt 0) (PFloat stop_lon) PNone (PFloat 2) = 9999"
proof -
  have q: "1000 * (6371 * pi / 90000) / (1 / 10) * (2 :: real) = 12742 * pi / 9" by simp
  have z: "calculate_eta_body (PInt 0) (PInt 0) (PInt 0) (PFloat stop_lon) (PInt 0) (PFloat 2)
             = Inr (trunc (12742 * pi / 9))"
    using calculate_eta_value [OF stop_222m_meters, of "PInt 0" 0 "PFloat 2" 2]
    by (simp add: num_of_def q)
  have n: "calculate_eta_body (PInt 0) (PInt 0) (PInt 0) (PFloat stop_lon) (PFloat (- 5)) (PFloat 2)
             = Inr (trunc (12742 * pi / 9))"
    using calculate_eta_value [OF stop_222m_meters, of "PFloat (- 5)" "- 5" "PFloat 2" 2]
    by (simp add: num_of_def q)
  have "(2831 :: real) \<le> 12742 * pi / 9" using pi_ge_two by simp
  then have lo: "2831 \<le> trunc (12742 * pi / 9)"
    by (simp add: trunc_def le_floor_iff)
  have m: "\<forall>m. num_of (PFloat 2) = Some m \<longrightarrow> 0 \<le> m" by (simp add: num_of_def)
  have s: "num_of PNone = None" by (simp add: num_of_def)
  from calculate_eta_seconds_total_nonneg
         [of "PFloat 2" "PInt 0" "PInt 0" "PInt 0" "PFloat stop_lon" "PInt 0"]
       calculate_eta_seconds_total_nonneg
         [of "PFloat 2" "PInt 0" "PInt 0" "PInt 0" "PFloat stop_lon" "PFloat (- 5)"]
       calculate_eta_seconds_total_nonneg
         [of "PFloat 2" "PInt 0" "PInt 0" "PInt 0" "PFloat stop_lon" PNone]
       m s z n lo
  show ?thesis by blast
qed

section \<open>The claims about the eta step\<close>













section \<open>The notifier\<close>

text \<open>What one subscription does once its ETA has been read from the trace and converted.\<close>

lemma notifier_threshold_rule:
  assumes "truthy (sub_field sub ''user_id'')" "truthy (sub_field sub ''bus_id'')"
      "truthy (sub_field sub ''stop_id'')"
      and "engine_ask (eta_query env (sub_field sub ''bus_id'') (sub_field sub ''stop_id'')) = Inr res"
      and "trace_eta res = Inr v" and "v \<noteq> PNone" and "py_int env v = Inr n"
  shows "process_sub env engine_ask sub =
           (if 0 \<le> n \<and> n \<le> notify_threshold env (sub_field sub ''notify_before_sec'')
            then [(sub_field sub ''user_id'',
                   arrival_msg env (sub_field sub ''bus_id'') (sub_field sub ''stop_id'') n,
                   sub_channel sub)]
            else [])"
  using assms by (simp add: process_sub_def sub_body_def Let_def)

text \<open>
  Claim C2. The code departs from the claim at an ETA of zero: the notifier reads the
  ETA as \<open>eta_res.get("eta_sec") or eta_res.get("eta")\<close>, so a trace whose eta step
  holds \<open>eta_sec = 0\<close> reads as no ETA and the subscription is skipped, although
  \<open>0 \<le> 0 \<le> 300\<close> and the test that follows is written \<open>0 <= eta_sec\<close>. The two
  values of the claim behave as it says: 250 seconds with threshold 300 gives one
  delivery, 400 seconds gives none. The same idiom makes a stored threshold of 0 on a
  subscription object read as missing, hence 300.
\<close>

theorem notifier_skips_zero_eta:
  "trace_eta (PDict [(''tool_results'',
                PList [trace_entry (demo_eta_step ''S1'') (PDict [(''eta_sec'', PInt 0)])])])
     = Inr PNone
   \<and> process_sub demo_env (engine_with_eta 0) (demo_sub (PInt 300)) = []
   \<and> process_sub demo_env (engine_with_eta 250) (demo_sub (PInt 300))
       = [(PStr ''U1'', ''Bus B1 is expected to reach stop S1 in about 4 minutes.'', PStr ''console'')]
   \<and> process_sub demo_env (engine_with_eta 400) (demo_sub (PInt 300)) = []
   \<and> notify_threshold demo_env (sub_field (demo_sub (PInt 0)) ''notify_before_sec'') = 300"
  by code_simp

section \<open>The supervisor\<close>


lemma select_entries_eta:
  "select_entries trs (a, g) = Inr (Some e, g')
     \<Longrightarrow> a = Some e \<or> (e \<in> set trs \<and> (\<exists>kvs. e = PDict kvs \<and> is_dict (py_or (alist_get kvs ''step'') (PDict []))
                \<and> is_dict (alist_get kvs ''result'')))"
proof (induction trs arbitrary: a g)
  case Nil
  then show ?case by simp
next
  case (Cons tr trs)
  show ?case
  proof (cases tr)
    case (PDict kvs)
    let ?step = "py_or (alist_get kvs ''step'') (PDict [])"
    show ?thesis
    proof (cases "is_dict ?step")
      case False
      with Cons.prems PDict have "select_entries trs (a, g) = Inr (Some e, g')" by simp
      from Cons.IH [OF this] show ?thesis by auto
    next
      case True
      with Cons.prems PDict obtain tn where tn: "tool_lower ?step = Inr tn"
        by (auto split: sum.splits)
      let ?res = "alist_get kvs ''result''"
      let ?sel = "tn = ''eta'' \<and> is_dict ?res \<and> (has_key ?res ''eta_sec'' \<or> has_key ?res ''eta'')"
      let ?a = "if ?sel then Some (PDict kvs) else a"
      let ?g = "if tn = ''gps'' then Some (PDict kvs) else g"
      from Cons.prems PDict True tn have "select_entries trs (?a, ?g) = Inr (Some e, g')"
        by (simp add: Let_def split del: if_split)
      from Cons.IH [OF this] show ?thesis
        using PDict True by (auto split: if_splits)
    qed
  qed (use Cons in \<open>auto dest!: Cons.IH\<close>)
qed

lemma selected_entry:
  assumes "select_entries trs (None, None) = Inr (Some e, g)"
  shows "truthy e" and "\<exists>params. entry_params e = Inr params"
proof -
  from select_entries_eta [OF assms] obtain kvs where e: "e = PDict kvs"
    and st: "is_dict (py_or (alist_get kvs ''step'') (PDict []))"
    and rs: "is_dict (alist_get kvs ''result'')" by auto
  from rs have "kvs \<noteq> []" by (auto simp: alist_get_def is_dict_def)
  then show "truthy e" by (simp add: e)
  from st show "\<exists>params. entry_params e = Inr params"
    by (auto simp: entry_params_def e dict_or_empty_def py_get_def is_dict_def split: pyval.splits)
qed

lemma eta_sentence_nonempty: "eta_sentence env b s n \<noteq> []"
  by (simp add: eta_sentence_def)

lemma with_eta_sentence_nonempty: "with_eta_sentence (eta_sentence env b s n) f \<noteq> []"
  by (simp add: with_eta_sentence_def eta_sentence_nonempty split: option.splits)

lemma supervise_long_eta:
  assumes trs: "alist_get_default kvs ''tool_results'' (PList []) = PList trs"
      and dicts: "list_all is_dict trs"
      and sel: "select_entries trs (None, None) = Inr (Some entry, gps)"
      and par: "entry_params entry = Inr params"
      and n: "py_int env (eta_value (PDict (entry_eta_res entry))) = Inr n"
      and long: "1800 \<le> n"
      and alt: "alt_text env (sup_bus_id params gps) (sup_stop_id params (entry_eta_res entry)) = Inr alt"
  shows "supervise env kvs =
           Inr (SupAnswer (collapse_ws
                  (with_eta_sentence
                     (eta_sentence env (sup_bus_id params gps)
                        (sup_stop_id params (entry_eta_res entry)) n)
                     (friendly_base (alist_get kvs ''answer'')) @ alt)))"
proof -
  have t: "truthy entry" using sel by (rule selected_entry)
  have nn: "eta_value (PDict (entry_eta_res entry)) \<noteq> PNone"
    using n by (auto simp: py_int_def)
  have en: "enrich env entry gps (friendly_base (alist_get kvs ''answer''))
              = Inr (Some (with_eta_sentence
                     (eta_sentence env (sup_bus_id params gps)
                        (sup_stop_id params (entry_eta_res entry)) n)
                     (friendly_base (alist_get kvs ''answer'')) @ alt))"
    using par n nn long alt by (simp add: enrich_def Let_def)
  show ?thesis
    using trs dicts sel t en
    by (simp add: supervise_def ensure_tool_results_def finish_answer_def
                  with_eta_sentence_nonempty)
qed

subsection \<open>Words of a text\<close>


lemma py_split_dropWhile: "py_split (dropWhile is_space s) = py_split s"
  by (subst (1 2) py_split.simps) simp

lemma py_split_all_space: "list_all is_space s \<Longrightarrow> py_split s = []"
proof -
  assume "list_all is_space s"
  then have "dropWhile is_space s = []" by (simp add: list_all_iff)
  then show ?thesis by (subst py_split.simps) simp
qed

lemma py_split_word:
  assumes "t \<noteq> []" and "\<not> is_space (hd t)"
  shows "py_split t = takeWhile (\<lambda>c. \<not> is_space c) t # py_split (dropWhile (\<lambda>c. \<not> is_space c) t)"
proof -
  from assms have "dropWhile is_space t = t" by (cases t) auto
  then show ?thesis using assms by (subst py_split.simps) (simp add: Let_def)
qed

lemma takeWhile_append_stop: "\<not> P c \<Longrightarrow> takeWhile P (t @ c # y) = takeWhile P t"
  by (induction t) auto

lemma dropWhile_append_stop: "\<not> P c \<Longrightarrow> dropWhile P (t @ c # y) = dropWhile P t @ c # y"
  by (induction t) auto

lemma py_split_append_space:
  assumes "is_space c"
  shows "py_split (x @ c # y) = py_split x @ py_split (c # y)"
proof (induction x rule: length_induct)
  case (1 x)
  let ?t = "dropWhile is_space x"
  show ?case
  proof (cases "?t = []")
    case True
    then have all: "\<forall>a \<in> set x. is_space a" by (simp add: dropWhile_eq_Nil_conv)
    then have "dropWhile is_space (x @ c # y) = dropWhile is_space (c # y)"
      by (simp add: dropWhile_append2)
    then have "py_split (x @ c # y) = py_split (c # y)"
      by (metis py_split_dropWhile)
    moreover have "py_split x = []" using all by (simp add: py_split_all_space list_all_iff)
    ultimately show ?thesis by simp
  next
    case False
    then have hd: "\<not> is_space (hd ?t)" using hd_dropWhile [of is_space x] by simp
    let ?w = "takeWhile (\<lambda>c. \<not> is_space c) ?t" and ?r = "dropWhile (\<lambda>c. \<not> is_space c) ?t"
    have ex: "\<exists>a \<in> set x. \<not> is_space a" using False by (auto simp: dropWhile_eq_Nil_conv)
    then obtain a where "a \<in> set x" "\<not> is_space a" by blast
    then have dw: "dropWhile is_space (x @ c # y) = ?t @ c # y"
      by (rule dropWhile_append1)
    have tne: "?t @ c # y \<noteq> []" by simp
    have hd2: "\<not> is_space (hd (?t @ c # y))" using hd False by simp
    have tw: "takeWhile (\<lambda>c. \<not> is_space c) (?t @ c # y) = ?w"
      using assms by (intro takeWhile_append_stop) simp
    have dr: "dropWhile (\<lambda>c. \<not> is_space c) (?t @ c # y) = ?r @ c # y"
      using assms by (intro dropWhile_append_stop) simp
    have "py_split (x @ c # y) = py_split (?t @ c # y)"
      using dw by (metis py_split_dropWhile)
    also have "\<dots> = ?w # py_split (?r @ c # y)"
      using py_split_word [OF tne hd2] by (simp only: tw dr)
    finally have a: "py_split (x @ c # y) = ?w # py_split (?r @ c # y)" .
    have "length ?r < length ?t"
      using False hd by (cases ?t) (auto simp: le_imp_less_Suc length_dropWhile_le)
    also have "length ?t \<le> length x" by (simp add: length_dropWhile_le)
    finally have "length ?r < length x" .
    with 1 have ih: "py_split (?r @ c # y) = py_split ?r @ py_split (c # y)" by blast
    have "py_split x = py_split ?t" by (metis py_split_dropWhile)
    also have "\<dots> = ?w # py_split ?r" using py_split_word [OF False hd] .
    finally have b: "py_split x = ?w # py_split ?r" .
    show ?thesis by (simp only: a b ih append_Cons)
  qed
qed



lemma space_is_space: "is_space CHR '' ''"
  by (simp add: is_space_def code_def)

lemma py_split_Nil: "py_split [] = []"
  by (subst py_split.simps) simp

lemma py_split_space_Cons: "is_space c \<Longrightarrow> py_split (c # s) = py_split s"
  using py_split_dropWhile [of "c # s"] py_split_dropWhile [of s] by simp

lemma py_split_single:
  assumes "w \<noteq> []" and "\<forall>c \<in> set w. \<not> is_space c"
  shows "py_split w = [w]"
proof -
  have h: "\<not> is_space (hd w)" using assms by (cases w) auto
  have tw: "takeWhile (\<lambda>c. \<not> is_space c) w = w" using assms by (simp add: takeWhile_eq_all_conv)
  have dw: "dropWhile (\<lambda>c. \<not> is_space c) w = []" using assms by (simp add: dropWhile_eq_Nil_conv)
  show ?thesis using py_split_word [OF assms(1) h] by (simp only: tw dw py_split_Nil)
qed

lemma py_split_words: "w \<in> set (py_split s) \<Longrightarrow> w \<noteq> [] \<and> (\<forall>c \<in> set w. \<not> is_space c)"
proof (induction s arbitrary: w rule: py_split.induct)
  case (1 s)
  let ?t = "dropWhile is_space s"
  show ?case
  proof (cases "?t = []")
    case True
    with "1.prems" show ?thesis by (subst (asm) py_split.simps) simp
  next
    case False
    then have hd: "\<not> is_space (hd ?t)" using hd_dropWhile [of is_space s] by simp
    have "py_split s = py_split ?t" by (metis py_split_dropWhile)
    also have "\<dots> = takeWhile (\<lambda>c. \<not> is_space c) ?t
                      # py_split (dropWhile (\<lambda>c. \<not> is_space c) ?t)"
      using False hd by (rule py_split_word)
    finally have u: "py_split s = takeWhile (\<lambda>c. \<not> is_space c) ?t
                      # py_split (dropWhile (\<lambda>c. \<not> is_space c) ?t)" .
    from "1.prems" have "w = takeWhile (\<lambda>c. \<not> is_space c) ?t
        \<or> w \<in> set (py_split (dropWhile (\<lambda>c. \<not> is_space c) ?t))"
      by (simp only: u set_simps insert_iff)
    then show ?thesis
    proof
      assume w: "w = takeWhile (\<lambda>c. \<not> is_space c) ?t"
      then have "w \<noteq> []" using False hd by (cases ?t) auto
      moreover have "\<forall>c \<in> set w. \<not> is_space c" using w by (auto dest: set_takeWhileD)
      ultimately show ?thesis by simp
    next
      assume "w \<in> set (py_split (dropWhile (\<lambda>c. \<not> is_space c) ?t))"
      with "1.IH" [OF refl False] show ?thesis by blast
    qed
  qed
qed

lemma py_split_join:
  "\<forall>w \<in> set ws. w \<noteq> [] \<and> (\<forall>c \<in> set w. \<not> is_space c) \<Longrightarrow> py_split (join_with '' '' ws) = ws"
proof (induction "'' ''" ws rule: join_with.induct)
  case 1
  show ?case by (simp add: py_split_Nil)
next
  case (2 x)
  then show ?case by (simp add: py_split_single)
next
  case (3 x y ys)
  have "py_split (x @ CHR '' '' # join_with '' '' (y # ys))
          = py_split x @ py_split (CHR '' '' # join_with '' '' (y # ys))"
    using space_is_space by (rule py_split_append_space)
  also have "\<dots> = [x] @ py_split (join_with '' '' (y # ys))"
    using 3 by (simp add: py_split_single py_split_space_Cons space_is_space)
  also have "\<dots> = x # y # ys" using 3 by simp
  finally show ?case by simp
qed

lemma py_split_collapse_ws: "py_split (collapse_ws s) = py_split s"
  unfolding collapse_ws_def by (rule py_split_join) (auto dest: py_split_words)

lemma py_split_with_eta_sentence:
  "py_split (with_eta_sentence s friendly) = py_split s @ py_split (kept_base friendly)"
proof (cases friendly)
  case None
  then show ?thesis by (simp add: with_eta_sentence_def kept_base_def py_split_Nil)
next
  case (Some f)
  have "py_split (s @ CHR '' '' # f) = py_split s @ py_split (CHR '' '' # f)"
    using space_is_space by (rule py_split_append_space)
  then have "py_split (s @ '' '' @ f) = py_split s @ py_split f"
    by (simp add: py_split_space_Cons space_is_space)
  then show ?thesis
    using Some by (auto simp: with_eta_sentence_def kept_base_def py_split_Nil)
qed

lemma alt_texts_start_with_space:
  "\<exists>t. alt_bus_text env b r s = CHR '' '' # t" "\<exists>t. generic_alt_text env s = CHR '' '' # t"
  by (simp_all add: alt_bus_text_def generic_alt_text_def)

lemma words_of_enriched:
  assumes "alt = CHR '' '' # t"
  shows "py_split (collapse_ws (with_eta_sentence s friendly @ alt))
           = py_split s @ py_split (kept_base friendly) @ py_split alt"
  using py_split_append_space [OF space_is_space, of "with_eta_sentence s friendly" t] assms
  by (simp add: py_split_collapse_ws py_split_with_eta_sentence)



lemma select_entries_step:
  "select_entries (tr # trs) (a, g) =
     (case tr of
        PDict kvs \<Rightarrow>
          (if is_dict (py_or (alist_get kvs ''step'') (PDict [])) then
             (case tool_lower (py_or (alist_get kvs ''step'') (PDict [])) of
                Inl e \<Rightarrow> Inl e
              | Inr tn \<Rightarrow>
                 select_entries trs
                   (if is_eta_entry tr then Some tr else a, if tn = ''gps'' then Some tr else g))
           else select_entries trs (a, g))
      | _ \<Rightarrow> select_entries trs (a, g))"
  by (cases tr) (auto simp: Let_def is_eta_entry_def split: sum.splits)

lemma select_entries_append:
  "select_entries (xs @ ys) acc =
     (case select_entries xs acc of Inl e \<Rightarrow> Inl e | Inr acc' \<Rightarrow> select_entries ys acc')"
proof (induction xs arbitrary: acc)
  case Nil
  show ?case by simp
next
  case (Cons tr xs)
  obtain a g where acc: "acc = (a, g)" by (cases acc)
  show ?case
    unfolding acc append_Cons select_entries_step
    by (simp add: Cons.IH split: pyval.splits sum.splits)
qed

lemma select_entries_no_eta:
  "select_entries post (a, g) = Inr (a', g') \<Longrightarrow> \<forall>t \<in> set post. \<not> is_eta_entry t \<Longrightarrow> a' = a"
proof (induction post arbitrary: a g)
  case Nil
  then show ?case by simp
next
  case (Cons tr post)
  from Cons.prems(2) have ne: "\<not> is_eta_entry tr" and rest: "\<forall>t \<in> set post. \<not> is_eta_entry t"
    by simp_all
  from Cons.prems(1) obtain g1 where "select_entries post (a, g1) = Inr (a', g')"
    unfolding select_entries_step using ne
    by (auto split: pyval.splits sum.splits if_splits)
  from Cons.IH [OF this rest] show ?case .
qed

lemma select_entries_last_eta:
  assumes sel: "select_entries (pre @ entry # post) (None, None) = Inr (s, gps)"
      and e: "is_eta_entry entry" and post: "\<forall>t \<in> set post. \<not> is_eta_entry t"
  shows "s = Some entry"
proof -
  from sel obtain a g where "select_entries (entry # post) (a, g) = Inr (s, gps)"
    by (auto simp: select_entries_append split: sum.splits)
  then obtain g1 where "select_entries post (Some entry, g1) = Inr (s, gps)"
    unfolding select_entries_step using e
    by (auto simp: is_eta_entry_def Let_def split: pyval.splits sum.splits if_splits)
  from select_entries_no_eta [OF this post] show ?thesis .
qed

lemma handle_body_dict:
  assumes "kvs \<noteq> []" and "''error'' \<notin> set (map fst kvs)"
  shows "handle_body env (PDict kvs) = supervise env kvs"
  using assms by (simp add: handle_body_def py_in_def)

lemma alt_text_value:
  assumes "main_route_id env bus_id = Inr route" and "alt_buses env bus_id route = Inr others"
  shows "alt_text env bus_id stop_id
           = Inr (case others of [] \<Rightarrow> generic_alt_text env stop_id
                  | b # _ \<Rightarrow> alt_bus_text env b route stop_id)"
    and "\<exists>t. (case others of [] \<Rightarrow> generic_alt_text env stop_id
                  | b # _ \<Rightarrow> alt_bus_text env b route stop_id) = CHR '' '' # t"
  using assms alt_texts_start_with_space
  by (auto simp: alt_text_def split: list.splits)

lemma alt_buses_share_route:
  assumes "alt_buses env bus_id route = Inr others" and "b \<in> set others"
  shows "\<exists>bs entry. fleet_buses env = PDict bs \<and> (b, entry) \<in> set bs
           \<and> \<not> py_eq (PStr b) bus_id \<and> is_dict entry
           \<and> py_eq (alist_get (dict_or_empty entry) ''route_id'') route"
  using assms by (fastforce simp: alt_buses_def split: if_splits pyval.splits)

text \<open>
  What the supervisor does with the entry its scan has picked, when that entry holds an
  ETA of at least 1800 seconds and the registry can be read: the answer is the
  whitespace-collapsed text of the ETA sentence, the planner's answer when it is kept,
  and the suggestion, in this order. The suggestion names the first bus of the registry,
  other than the primary bus, that is on the route of the primary bus, and is the
  generic one when there is none. The entry picked is the last eta step of the trace.
\<close>

lemma handle_long_eta_cases:
  assumes res: "kvs \<noteq> []" "''error'' \<notin> set (map fst kvs)"
      and trs: "alist_get_default kvs ''tool_results'' (PList []) = PList (pre @ entry # post)"
      and dicts: "list_all is_dict (pre @ entry # post)"
      and last: "is_eta_entry entry" "\<forall>t \<in> set post. \<not> is_eta_entry t"
      and sel: "select_entries (pre @ entry # post) (None, None) = Inr (s, gps)"
      and par: "entry_params entry = Inr params"
      and ids: "bus_id = sup_bus_id params gps" "stop_id = sup_stop_id params (entry_eta_res entry)"
      and n: "py_int env (eta_value (PDict (entry_eta_res entry))) = Inr n"
      and long: "1800 \<le> n"
      and route: "main_route_id env bus_id = Inr route" "alt_buses env bus_id route = Inr others"
      and alt: "alt = (case others of [] \<Rightarrow> generic_alt_text env stop_id
                       | b # _ \<Rightarrow> alt_bus_text env b route stop_id)"
  shows "\<exists>final. handle_user_query env (PDict kvs) = SupAnswer final
           \<and> final = collapse_ws (with_eta_sentence (eta_sentence env bus_id stop_id n)
                                    (friendly_base (alist_get kvs ''answer'')) @ alt)
           \<and> py_split final
               = py_split (eta_sentence env bus_id stop_id n)
                 @ py_split (kept_base (friendly_base (alist_get kvs ''answer'')))
                 @ py_split alt"
proof -
  have s: "s = Some entry" using sel last by (rule select_entries_last_eta)
  have a: "alt_text env (sup_bus_id params gps) (sup_stop_id params (entry_eta_res entry)) = Inr alt"
    using alt_text_value(1) [OF route, of stop_id] by (simp add: alt ids)
  from alt_text_value(2) [OF route, of stop_id] obtain t where t: "alt = CHR '' '' # t"
    unfolding alt by blast
  have "supervise env kvs =
           Inr (SupAnswer (collapse_ws
                  (with_eta_sentence (eta_sentence env bus_id stop_id n)
                     (friendly_base (alist_get kvs ''answer'')) @ alt)))"
    using supervise_long_eta [OF trs dicts sel [unfolded s] par n long a] by (simp add: ids)
  then have "handle_user_query env (PDict kvs) =
           SupAnswer (collapse_ws
                  (with_eta_sentence (eta_sentence env bus_id stop_id n)
                     (friendly_base (alist_get kvs ''answer'')) @ alt))"
    by (simp add: handle_user_query_def handle_body_dict [OF res])
  then show ?thesis using words_of_enriched [OF t] by blast
qed

section \<open>The long-ETA suggestion of the supervisor\<close>

text \<open>
  Claim C8. The loop of the supervisor that picks the eta entry of the trace has no
  \<open>break\<close>, so it resolves the last eta step of the trace; the composer of \<open>ask\<close> and
  the notifier, whose loops break at the first eta step, resolve the first. For a trace
  with an eta step of 2100 seconds for stop S1 followed by one of 600 seconds for stop
  S2, the composer and the notifier read 2100 seconds, an ETA of at least 1800 seconds,
  and the supervisor speaks of stop S2 and 10 minutes, with no suggestion. With the two
  steps in the other order, or with the step of 2100 seconds alone, the supervisor
  appends the suggestion that names bus B2 of the same route.
\<close>

theorem supervisor_resolves_last_eta_step:
  "is_eta_entry (eta_entry_for (''S1'', 2100))
   \<and> py_int demo_env (eta_value (entry_result (eta_entry_for (''S1'', 2100)))) = Inr 2100
   \<and> fallback_answer demo_env (map eta_entry_for [(''S1'', 2100), (''S2'', 600)])
       = Inr ''The bus is expected to reach stop S1 in about 35 minutes.''
   \<and> trace_eta (planner_result [(''S1'', 2100), (''S2'', 600)]) = Inr (PInt 2100)
   \<and> handle_user_query demo_env (planner_result [(''S1'', 2100), (''S2'', 600)])
       = SupAnswer ''Bus B1 is expected to reach stop S2 in about 10 minutes. The bus is on its way.''
   \<and> handle_user_query demo_env (planner_result [(''S2'', 600), (''S1'', 2100)])
       = SupAnswer (''Bus B1 is expected to reach stop S1 in about 35 minutes. The bus is on its way.''
                    @ '' As an alternative, you could consider taking bus B2 on route R1,''
                    @ '' which may reach stop S1 earlier depending on its schedule.'')
   \<and> handle_user_query demo_env (planner_result [(''S1'', 2100)])
       = SupAnswer (''Bus B1 is expected to reach stop S1 in about 35 minutes. The bus is on its way.''
                    @ '' As an alternative, you could consider taking bus B2 on route R1,''
                    @ '' which may reach stop S1 earlier depending on its schedule.'')"
  by code_simp

end
